theory Spec2Isabelle
  imports Main "HOL-Library.Word"
begin

section \<open>The logrus types the hook works on\<close>

text \<open>
  The hook of \<^verbatim>\<open>lfshook.go\<close> routes a formatted log entry to a file or to an
  \<^verbatim>\<open>io.Writer\<close>, chosen by the entry's level. The logrus library, the formatter
  implementations, the writers and the operating system are collaborators: the model
  records every call the hook makes to them, in order, and takes what they answer from a
  record of functions.

  \<^verbatim>\<open>logrus.Level\<close> is \<^verbatim>\<open>uint32\<close>; the named levels are its constants
  and \<^verbatim>\<open>logrus.AllLevels\<close> lists them.
\<close>

type_synonym Level = "32 word"

definition PanicLevel :: Level where "PanicLevel = 0"
definition FatalLevel :: Level where "FatalLevel = 1"
definition ErrorLevel :: Level where "ErrorLevel = 2"
definition WarnLevel :: Level where "WarnLevel = 3"
definition InfoLevel :: Level where "InfoLevel = 4"
definition DebugLevel :: Level where "DebugLevel = 5"
definition TraceLevel :: Level where "TraceLevel = 6"

definition AllLevels :: "Level list" where
  "AllLevels =
     [PanicLevel, FatalLevel, ErrorLevel, WarnLevel, InfoLevel, DebugLevel, TraceLevel]"

text \<open>Of a \<^verbatim>\<open>logrus.Entry\<close> the hook itself reads the level only.\<close>

record Entry =
  Level :: Level
  Message :: string

type_synonym bytes = string

datatype goerror = GoError string

text \<open>
  A \<^verbatim>\<open>logrus.TextFormatter\<close> is a struct reached through a pointer, so that a
  write through one pointer is seen through every other: the structs live in a store,
  and a non-nil pointer is an address of the store. The receiver of a method and the
  entry given to \<^verbatim>\<open>Fire\<close> are never nil. Interface values can be nil, and so
  can the pointer to a \<^verbatim>\<open>TextFormatter\<close> that an interface value holds.
\<close>

record TextFormatter =
  ForceColors :: bool
  DisableColors :: bool
  DisableTimestamp :: bool
  FullTimestamp :: bool

type_synonym store = "nat \<Rightarrow> TextFormatter"

text \<open>
  A non-nil value of the interface \<^verbatim>\<open>logrus.Formatter\<close> is a pointer to a
  \<^verbatim>\<open>TextFormatter\<close>, the nil pointer of that type
  (\<^verbatim>\<open>(*logrus.TextFormatter)(nil)\<close>, which a type switch still matches as a
  \<^verbatim>\<open>*logrus.TextFormatter\<close>), or a value of some other implementation, named by a
  number. A non-nil \<^verbatim>\<open>io.Writer\<close> is named by a number too. The nil interface is
  \<open>None\<close>.
\<close>

datatype Formatter = TextFormatterPtr nat | NilTextFormatterPtr | OtherFormatter nat

datatype Writer = Writer nat

section \<open>Go maps\<close>

text \<open>
  A Go map is nil or a table. The table is an association list with one pair for each
  key, whose order stands for the order in which \<^verbatim>\<open>range\<close> visits the keys.
  Reading a nil map finds nothing.
\<close>

type_synonym 'v gomap = "(Level \<times> 'v) list option"

type_synonym PathMap = "string gomap"
type_synonym WriterMap = "Writer option gomap"

definition lookup :: "'v gomap \<Rightarrow> Level \<Rightarrow> 'v option" where
  "lookup m k = (case m of None \<Rightarrow> None | Some kvs \<Rightarrow> map_of kvs k)"

definition range_keys :: "'v gomap \<Rightarrow> Level list" where
  "range_keys m = (case m of None \<Rightarrow> [] | Some kvs \<Rightarrow> map fst kvs)"

section \<open>The hook\<close>

text \<open>
  The struct \<^verbatim>\<open>lfsHook\<close>. Its mutex carries no data: taking and releasing it
  are events of a call's trace.
\<close>

record lfsHook =
  paths :: PathMap
  writers :: WriterMap
  levels :: "Level list"
  formatter :: "Formatter option"
  defaultPath :: string
  defaultWriter :: "Writer option"
  hasDefaultPath :: bool
  hasDefaultWriter :: bool

text \<open>A call returns a value or panics.\<close>

datatype panic = NilDereference | PanicString string

datatype 'a outcome = Return 'a | Panic panic

text \<open>
  The package variable \<^verbatim>\<open>defaultFormatter\<close> points to a struct allocated when the
  package is initialised, with \<^verbatim>\<open>DisableColors: true\<close> and every other field zero.
\<close>

definition defaultFormatter_addr :: nat where
  "defaultFormatter_addr = 0"

definition defaultFormatter :: Formatter where
  "defaultFormatter = TextFormatterPtr defaultFormatter_addr"

definition zero_TextFormatter :: TextFormatter where
  "zero_TextFormatter =
     \<lparr>ForceColors = False, DisableColors = False, DisableTimestamp = False,
      FullTimestamp = False\<rparr>"

definition init_store :: store where
  "init_store =
     (\<lambda>a. zero_TextFormatter)
       (defaultFormatter_addr := zero_TextFormatter\<lparr>DisableColors := True\<rparr>)"

text \<open>
  The argument \<^verbatim>\<open>levelMap interface{}\<close> of \<^verbatim>\<open>NewHook\<close>: the nil interface, a
  \<^verbatim>\<open>PathMap\<close>, a \<^verbatim>\<open>WriterMap\<close>, or a value of another type, of which the
  constructor reads the type's name only.
\<close>

datatype levelMapArg =
  NilLevelMap
| IsPathMap PathMap
| IsWriterMap WriterMap
| OtherType string

definition NewHook ::
  "levelMapArg \<Rightarrow> Formatter option \<Rightarrow> store \<Rightarrow> lfsHook outcome \<times> store" where
  "NewHook levelMap userFormatter s =
     (let formatter = (if userFormatter \<noteq> None then userFormatter
                       else Some defaultFormatter);
          hook = \<lparr>paths = None, writers = None, levels = [], formatter = formatter,
                  defaultPath = [], defaultWriter = None,
                  hasDefaultPath = False, hasDefaultWriter = False\<rparr>
      in case levelMap of
           NilLevelMap \<Rightarrow> (Return hook, s)
         | IsPathMap pm \<Rightarrow>
             (Return (hook\<lparr>paths := pm, levels := levels hook @ range_keys pm\<rparr>), s)
         | IsWriterMap wm \<Rightarrow>
             (Return (hook\<lparr>writers := wm, levels := levels hook @ range_keys wm\<rparr>), s)
         | OtherType tn \<Rightarrow>
             (Panic (PanicString (''unsupported level map type: '' @ tn)), s))"

text \<open>
  \<^verbatim>\<open>SetFormatter\<close> assigns the field first and then, when the value is a
  \<^verbatim>\<open>*logrus.TextFormatter\<close>, writes \<^verbatim>\<open>DisableColors\<close> through the pointer: a
  nil pointer panics there, after the assignment. The result is the outcome, the hook
  and the store as the call leaves them.
\<close>

definition SetFormatter ::
  "lfsHook \<Rightarrow> Formatter option \<Rightarrow> store \<Rightarrow> unit outcome \<times> lfsHook \<times> store" where
  "SetFormatter hook f s =
     (let hook' = hook\<lparr>formatter := f\<rparr>
      in case formatter hook' of
           Some (TextFormatterPtr a) \<Rightarrow>
             (Return (), hook', s(a := (s a)\<lparr>DisableColors := True\<rparr>))
         | Some NilTextFormatterPtr \<Rightarrow> (Panic NilDereference, hook', s)
         | _ \<Rightarrow> (Return (), hook', s))"

definition SetDefaultPath :: "lfsHook \<Rightarrow> string \<Rightarrow> lfsHook" where
  "SetDefaultPath hook p = hook\<lparr>defaultPath := p, hasDefaultPath := True\<rparr>"

definition SetDefaultWriter :: "lfsHook \<Rightarrow> Writer option \<Rightarrow> lfsHook" where
  "SetDefaultWriter hook w = hook\<lparr>defaultWriter := w, hasDefaultWriter := True\<rparr>"

section \<open>Calls to the collaborators\<close>

text \<open>
  What the formatter, the writers and the operating system answer to the calls of one
  \<^verbatim>\<open>Fire\<close>. A call that returns \<^verbatim>\<open>(value, error)\<close> answers a pair; a nil error
  is \<open>None\<close>. An open file is named by the path it was opened on. A method called
  through a non-nil interface value is entered even when the pointer it holds is nil:
  what \<^verbatim>\<open>Format\<close> does with such a receiver is the library's answer.
\<close>

record extern =
  Format :: "Formatter \<Rightarrow> Entry \<Rightarrow> bytes \<times> goerror option"
  Write :: "Writer \<Rightarrow> bytes \<Rightarrow> int \<times> goerror option"
  Dir :: "string \<Rightarrow> string"
  MkdirAll :: "string \<Rightarrow> goerror option"
  OpenFile :: "string \<Rightarrow> goerror option"
  FileWrite :: "string \<Rightarrow> bytes \<Rightarrow> int \<times> goerror option"
  FileClose :: "string \<Rightarrow> goerror option"

datatype open_flag = O_WRONLY | O_APPEND | O_CREATE

datatype logarg = LStr string | LErr goerror

datatype event =
  E_Lock
| E_Unlock
| E_Println "logarg list"
| E_Format Formatter Entry
| E_Write Writer bytes
| E_MkdirAll string nat
| E_OpenFile string "open_flag list" nat
| E_FileWrite string bytes
| E_FileClose string

definition ModePerm :: nat where
  "ModePerm = 511"

text \<open>
  The head of \<^verbatim>\<open>ioWrite\<close>: the writer mapped to the entry's level, else the
  default writer when one was set, else nothing (the function returns nil there). The
  writer found can itself be the nil interface.
\<close>

definition resolveWriter :: "lfsHook \<Rightarrow> Entry \<Rightarrow> Writer option option" where
  "resolveWriter hook entry =
     (case lookup (writers hook) (Level entry) of
        Some w \<Rightarrow> Some w
      | None \<Rightarrow> if hasDefaultWriter hook then Some (defaultWriter hook) else None)"

text \<open>
  \<^verbatim>\<open>ioWrite\<close> between taking the mutex and the deferred release: the formatter,
  then the writer. A method call on a nil interface panics.
\<close>

definition ioWrite_body ::
  "extern \<Rightarrow> lfsHook \<Rightarrow> Entry \<Rightarrow> goerror option outcome \<times> event list" where
  "ioWrite_body ext hook entry =
     (case resolveWriter hook entry of
        None \<Rightarrow> (Return None, [])
      | Some writer \<Rightarrow>
          (case formatter hook of
             None \<Rightarrow> (Panic NilDereference, [])
           | Some f \<Rightarrow>
               (case Format ext f entry of
                  (msg, Some err) \<Rightarrow>
                    (Return (Some err),
                     [E_Format f entry,
                      E_Println [LStr ''failed to generate string for entry:'', LErr err]])
                | (msg, None) \<Rightarrow>
                    (case writer of
                       None \<Rightarrow> (Panic NilDereference, [E_Format f entry])
                     | Some w \<Rightarrow>
                         (Return (snd (Write ext w msg)),
                          [E_Format f entry, E_Write w msg])))))"

definition ioWrite ::
  "extern \<Rightarrow> lfsHook \<Rightarrow> Entry \<Rightarrow> goerror option outcome \<times> event list" where
  "ioWrite ext hook entry =
     (case ioWrite_body ext hook entry of (r, tr) \<Rightarrow> (r, [E_Lock] @ tr @ [E_Unlock]))"

text \<open>
  \<^verbatim>\<open>fileWrite\<close> once the file is open, up to the deferred close; then all of it
  between taking the mutex and the deferred release. The answers of
  \<^verbatim>\<open>os.MkdirAll\<close>, of the file's \<^verbatim>\<open>Write\<close> and of its \<^verbatim>\<open>Close\<close> are
  not read.
\<close>

definition fileWrite_opened ::
  "extern \<Rightarrow> lfsHook \<Rightarrow> Entry \<Rightarrow> string \<Rightarrow> goerror option outcome \<times> event list" where
  "fileWrite_opened ext hook entry path =
     (case formatter hook of
        None \<Rightarrow> (Panic NilDereference, [])
      | Some f \<Rightarrow>
          (case Format ext f entry of
             (msg, Some err) \<Rightarrow>
               (Return (Some err),
                [E_Format f entry,
                 E_Println [LStr ''failed to generate string for entry:'', LErr err]])
           | (msg, None) \<Rightarrow>
               (Return None, [E_Format f entry, E_FileWrite path msg])))"

text \<open>The head of \<^verbatim>\<open>fileWrite\<close>: the same choice among paths.\<close>

definition resolvePath :: "lfsHook \<Rightarrow> Entry \<Rightarrow> string option" where
  "resolvePath hook entry =
     (case lookup (paths hook) (Level entry) of
        Some p \<Rightarrow> Some p
      | None \<Rightarrow> if hasDefaultPath hook then Some (defaultPath hook) else None)"

definition fileWrite_body ::
  "extern \<Rightarrow> lfsHook \<Rightarrow> Entry \<Rightarrow> goerror option outcome \<times> event list" where
  "fileWrite_body ext hook entry =
     (case resolvePath hook entry of
        None \<Rightarrow> (Return None, [])
      | Some path \<Rightarrow>
          (let dir = Dir ext path;
               pre = [E_MkdirAll dir ModePerm,
                      E_OpenFile path [O_WRONLY, O_APPEND, O_CREATE] 438]
           in case OpenFile ext path of
                Some err \<Rightarrow>
                  (Return (Some err),
                   pre @ [E_Println [LStr ''failed to open logfile:'', LStr path, LErr err]])
              | None \<Rightarrow>
                  (case fileWrite_opened ext hook entry path of
                     (r, tr) \<Rightarrow> (r, pre @ tr @ [E_FileClose path]))))"

definition fileWrite ::
  "extern \<Rightarrow> lfsHook \<Rightarrow> Entry \<Rightarrow> goerror option outcome \<times> event list" where
  "fileWrite ext hook entry =
     (case fileWrite_body ext hook entry of (r, tr) \<Rightarrow> (r, [E_Lock] @ tr @ [E_Unlock]))"

definition Fire ::
  "extern \<Rightarrow> lfsHook \<Rightarrow> Entry \<Rightarrow> goerror option outcome \<times> event list" where
  "Fire ext hook entry =
     (if writers hook \<noteq> None \<or> hasDefaultWriter hook then ioWrite ext hook entry
      else if paths hook \<noteq> None \<or> hasDefaultPath hook then fileWrite ext hook entry
      else (Return None, []))"

definition Levels :: "lfsHook \<Rightarrow> Level list" where
  "Levels hook = AllLevels"

section \<open>Reading a trace\<close>

text \<open>
  The bytes handed to a destination by the calls of a trace: a writer's
  \<^verbatim>\<open>Write\<close> or a \<^verbatim>\<open>Write\<close> on the file opened on a path.
\<close>

datatype dest = ToWriter Writer | ToFile string

fun write_of :: "event \<Rightarrow> (dest \<times> bytes) option" where
  "write_of (E_Write w msg) = Some (ToWriter w, msg)"
| "write_of (E_FileWrite p msg) = Some (ToFile p, msg)"
| "write_of _ = None"

definition written :: "event list \<Rightarrow> (dest \<times> bytes) list" where
  "written tr = List.map_filter write_of tr"

text \<open>
  The stores a program can reach: the one set up when the package is initialised, then
  calls of \<^verbatim>\<open>SetFormatter\<close>, and writes of the client to its own formatter structs
  (the package exports neither \<^verbatim>\<open>defaultFormatter\<close> nor a hook's formatter).
\<close>

inductive reachable :: "store \<Rightarrow> bool" where
  init: "reachable init_store"
| set_formatter: "reachable s \<Longrightarrow> reachable (snd (snd (SetFormatter hook f s)))"
| client_write: "reachable s \<Longrightarrow> a \<noteq> defaultFormatter_addr \<Longrightarrow> reachable (s(a := tf))"

code_pred reachable .

section \<open>Example values\<close>

definition ext_ok :: extern where
  "ext_ok =
     \<lparr>Format = (\<lambda>f e. (Message e, None)),
      Write = (\<lambda>w msg. (int (length msg), None)),
      Dir = (\<lambda>p. ''/tmp''),
      MkdirAll = (\<lambda>d. None),
      OpenFile = (\<lambda>p. None),
      FileWrite = (\<lambda>p msg. (int (length msg), None)),
      FileClose = (\<lambda>p. None)\<rparr>"

definition ext_format_fails :: extern where
  "ext_format_fails = ext_ok\<lparr>Format := (\<lambda>f e. ([], Some (GoError ''bad field'')))\<rparr>"

definition ext_write_fails :: extern where
  "ext_write_fails =
     ext_ok\<lparr>Write := (\<lambda>w msg. (0, Some (GoError ''closed pipe''))),
            FileWrite := (\<lambda>p msg. (0, Some (GoError ''disk full'')))\<rparr>"

definition ext_open_fails :: extern where
  "ext_open_fails = ext_ok\<lparr>OpenFile := (\<lambda>p. Some (GoError ''permission denied''))\<rparr>"

definition entry_info :: Entry where
  "entry_info = \<lparr>Level = InfoLevel, Message = ''hello''\<rparr>"

definition entry_error :: Entry where
  "entry_error = \<lparr>Level = ErrorLevel, Message = ''boom''\<rparr>"

definition hook_empty :: lfsHook where
  "hook_empty =
     \<lparr>paths = None, writers = None, levels = [], formatter = Some defaultFormatter,
      defaultPath = [], defaultWriter = None,
      hasDefaultPath = False, hasDefaultWriter = False\<rparr>"

definition hook_paths :: lfsHook where
  "hook_paths =
     hook_empty\<lparr>paths := Some [(ErrorLevel, ''/tmp/e.log'')], levels := [ErrorLevel]\<rparr>"

definition hook_writers :: lfsHook where
  "hook_writers =
     hook_empty\<lparr>writers := Some [(WarnLevel, Some (Writer 1)), (ErrorLevel, Some (Writer 2))],
                 levels := [WarnLevel, ErrorLevel]\<rparr>"

definition store_user :: store where
  "store_user = init_store(7 := zero_TextFormatter\<lparr>ForceColors := True\<rparr>)"

definition hook_nil_formatter :: lfsHook where
  "hook_nil_formatter = fst (snd (SetFormatter hook_paths None init_store))"

section \<open>Unfolding\<close>

lemmas level_defs = PanicLevel_def FatalLevel_def ErrorLevel_def WarnLevel_def
  InfoLevel_def DebugLevel_def TraceLevel_def

lemmas example_defs = ext_ok_def entry_info_def entry_error_def
  hook_empty_def hook_paths_def hook_writers_def defaultFormatter_def defaultFormatter_addr_def

lemmas write_defs = ioWrite_def ioWrite_body_def fileWrite_def fileWrite_body_def
  fileWrite_opened_def resolveWriter_def resolvePath_def lookup_def ModePerm_def

section \<open>The order of dispatch\<close>

lemma resolveWriter_paths:
  "resolveWriter (hook\<lparr>paths := p, defaultPath := dp, hasDefaultPath := hp\<rparr>) entry
     = resolveWriter hook entry"
  by (simp add: resolveWriter_def split: option.split)

lemma ioWrite_paths:
  "ioWrite ext (hook\<lparr>paths := p, defaultPath := dp, hasDefaultPath := hp\<rparr>) entry
     = ioWrite ext hook entry"
  by (simp add: ioWrite_def ioWrite_body_def resolveWriter_paths cong: option.case_cong)

text \<open>
  Claim C1. \<^verbatim>\<open>Fire\<close> chooses in a fixed order. With a writer table (a non-nil
  map) or a default writer it is \<^verbatim>\<open>ioWrite\<close>, and then the path table, the default
  path and its flag are never read: replacing them changes neither the result nor the
  trace. Otherwise, with a path table or a default path, it is \<^verbatim>\<open>fileWrite\<close>.
  Otherwise it returns nil and calls nothing.
\<close>

theorem Fire_dispatch_order:
  "(writers hook \<noteq> None \<or> hasDefaultWriter hook \<longrightarrow>
      Fire ext hook entry = ioWrite ext hook entry \<and>
      Fire ext (hook\<lparr>paths := p, defaultPath := dp, hasDefaultPath := hp\<rparr>) entry
        = Fire ext hook entry) \<and>
   (writers hook = None \<and> \<not> hasDefaultWriter hook \<and>
    (paths hook \<noteq> None \<or> hasDefaultPath hook) \<longrightarrow>
      Fire ext hook entry = fileWrite ext hook entry) \<and>
   (writers hook = None \<and> \<not> hasDefaultWriter hook \<and>
    paths hook = None \<and> \<not> hasDefaultPath hook \<longrightarrow>
      Fire ext hook entry = (Return None, []))"
  by (simp add: Fire_def ioWrite_paths)

theorem Fire_dispatch_order_witness:
  "Fire ext_ok (SetDefaultPath hook_writers ''/tmp/default.log'') entry_error
     = (Return None,
        [E_Lock, E_Format defaultFormatter entry_error, E_Write (Writer 2) ''boom'', E_Unlock]) \<and>
   Fire ext_ok (SetDefaultPath hook_writers ''/tmp/default.log'') entry_error
     = Fire ext_ok hook_writers entry_error \<and>
   Fire ext_ok hook_paths entry_error = fileWrite ext_ok hook_paths entry_error \<and>
   Fire ext_ok hook_empty entry_error = (Return None, [])"
  using Fire_dispatch_order [where hook = hook_writers and ext = ext_ok and entry = entry_error
          and p = "paths hook_writers" and dp = "''/tmp/default.log''" and hp = True]
        Fire_dispatch_order [where hook = hook_paths and ext = ext_ok and entry = entry_error]
        Fire_dispatch_order [where hook = hook_empty and ext = ext_ok and entry = entry_error]
  by (simp add: example_defs level_defs SetDefaultPath_def ioWrite_def ioWrite_body_def
        resolveWriter_def lookup_def)

section \<open>What each path through the two writers yields\<close>

lemma Fire_stream:
  "writers hook \<noteq> None \<or> hasDefaultWriter hook \<Longrightarrow> Fire ext hook entry = ioWrite ext hook entry"
  by (simp add: Fire_def)

lemma Fire_file:
  "writers hook = None \<Longrightarrow> \<not> hasDefaultWriter hook \<Longrightarrow>
   paths hook \<noteq> None \<or> hasDefaultPath hook \<Longrightarrow> Fire ext hook entry = fileWrite ext hook entry"
  by (simp add: Fire_def)

lemma Fire_idle:
  "writers hook = None \<Longrightarrow> \<not> hasDefaultWriter hook \<Longrightarrow>
   paths hook = None \<Longrightarrow> \<not> hasDefaultPath hook \<Longrightarrow> Fire ext hook entry = (Return None, [])"
  by (simp add: Fire_def)

lemma lookup_Some_not_nil: "lookup m k = Some v \<Longrightarrow> m \<noteq> None"
  by (cases m) (auto simp: lookup_def)

lemma lookup_nil: "lookup None k = None"
  by (simp add: lookup_def)

lemma ioWrite_unresolved:
  "resolveWriter hook entry = None \<Longrightarrow> ioWrite ext hook entry = (Return None, [E_Lock, E_Unlock])"
  by (simp add: ioWrite_def ioWrite_body_def)

lemma ioWrite_nil_formatter:
  "resolveWriter hook entry = Some w \<Longrightarrow> formatter hook = None \<Longrightarrow>
   ioWrite ext hook entry = (Panic NilDereference, [E_Lock, E_Unlock])"
  by (simp add: ioWrite_def ioWrite_body_def)

lemma ioWrite_format_error:
  "resolveWriter hook entry = Some w \<Longrightarrow> formatter hook = Some f \<Longrightarrow>
   Format ext f entry = (msg, Some e) \<Longrightarrow>
   ioWrite ext hook entry =
     (Return (Some e),
      [E_Lock, E_Format f entry,
       E_Println [LStr ''failed to generate string for entry:'', LErr e], E_Unlock])"
  by (simp add: ioWrite_def ioWrite_body_def)

lemma ioWrite_nil_writer:
  "resolveWriter hook entry = Some None \<Longrightarrow> formatter hook = Some f \<Longrightarrow>
   Format ext f entry = (msg, None) \<Longrightarrow>
   ioWrite ext hook entry = (Panic NilDereference, [E_Lock, E_Format f entry, E_Unlock])"
  by (simp add: ioWrite_def ioWrite_body_def)

lemma ioWrite_written:
  "resolveWriter hook entry = Some (Some w) \<Longrightarrow> formatter hook = Some f \<Longrightarrow>
   Format ext f entry = (msg, None) \<Longrightarrow>
   ioWrite ext hook entry =
     (Return (snd (Write ext w msg)), [E_Lock, E_Format f entry, E_Write w msg, E_Unlock])"
  by (simp add: ioWrite_def ioWrite_body_def)

lemma fileWrite_unresolved:
  "resolvePath hook entry = None \<Longrightarrow> fileWrite ext hook entry = (Return None, [E_Lock, E_Unlock])"
  by (simp add: fileWrite_def fileWrite_body_def)

lemma fileWrite_open_error:
  "resolvePath hook entry = Some p \<Longrightarrow> OpenFile ext p = Some e \<Longrightarrow>
   fileWrite ext hook entry =
     (Return (Some e),
      [E_Lock, E_MkdirAll (Dir ext p) ModePerm, E_OpenFile p [O_WRONLY, O_APPEND, O_CREATE] 438,
       E_Println [LStr ''failed to open logfile:'', LStr p, LErr e], E_Unlock])"
  by (simp add: fileWrite_def fileWrite_body_def)

lemma fileWrite_nil_formatter:
  "resolvePath hook entry = Some p \<Longrightarrow> OpenFile ext p = None \<Longrightarrow> formatter hook = None \<Longrightarrow>
   fileWrite ext hook entry =
     (Panic NilDereference,
      [E_Lock, E_MkdirAll (Dir ext p) ModePerm, E_OpenFile p [O_WRONLY, O_APPEND, O_CREATE] 438,
       E_FileClose p, E_Unlock])"
  by (simp add: fileWrite_def fileWrite_body_def fileWrite_opened_def)

lemma fileWrite_format_error:
  "resolvePath hook entry = Some p \<Longrightarrow> OpenFile ext p = None \<Longrightarrow> formatter hook = Some f \<Longrightarrow>
   Format ext f entry = (msg, Some e) \<Longrightarrow>
   fileWrite ext hook entry =
     (Return (Some e),
      [E_Lock, E_MkdirAll (Dir ext p) ModePerm, E_OpenFile p [O_WRONLY, O_APPEND, O_CREATE] 438,
       E_Format f entry, E_Println [LStr ''failed to generate string for entry:'', LErr e],
       E_FileClose p, E_Unlock])"
  by (simp add: fileWrite_def fileWrite_body_def fileWrite_opened_def)

lemma fileWrite_written:
  "resolvePath hook entry = Some p \<Longrightarrow> OpenFile ext p = None \<Longrightarrow> formatter hook = Some f \<Longrightarrow>
   Format ext f entry = (msg, None) \<Longrightarrow>
   fileWrite ext hook entry =
     (Return None,
      [E_Lock, E_MkdirAll (Dir ext p) ModePerm, E_OpenFile p [O_WRONLY, O_APPEND, O_CREATE] 438,
       E_Format f entry, E_FileWrite p msg, E_FileClose p, E_Unlock])"
  by (simp add: fileWrite_def fileWrite_body_def fileWrite_opened_def)

text \<open>The paths through \<^verbatim>\<open>ioWrite\<close> are these five and no other.\<close>

lemma ioWrite_cases:
  obtains
    (unresolved) "resolveWriter hook entry = None"
  | (nil_formatter) w where "resolveWriter hook entry = Some w" "formatter hook = None"
  | (format_error) w f msg e where "resolveWriter hook entry = Some w" "formatter hook = Some f"
      "Format ext f entry = (msg, Some e)"
  | (nil_writer) f msg where "resolveWriter hook entry = Some None" "formatter hook = Some f"
      "Format ext f entry = (msg, None)"
  | (written) w f msg where "resolveWriter hook entry = Some (Some w)" "formatter hook = Some f"
      "Format ext f entry = (msg, None)"
proof (cases "resolveWriter hook entry")
  case None
  then show ?thesis by (rule unresolved)
next
  case (Some w)
  show ?thesis
  proof (cases "formatter hook")
    case None
    with Some show ?thesis by (rule nil_formatter)
  next
    case f: (Some f)
    obtain msg err where fm: "Format ext f entry = (msg, err)"
      by (cases "Format ext f entry")
    show ?thesis
    proof (cases err)
      case (Some e)
      with \<open>resolveWriter hook entry = Some w\<close> f fm show ?thesis
        by (auto intro: format_error)
    next
      case None
      with \<open>resolveWriter hook entry = Some w\<close> f fm show ?thesis
        by (cases w) (auto intro: nil_writer written)
    qed
  qed
qed

lemma fileWrite_cases:
  obtains
    (unresolved) "resolvePath hook entry = None"
  | (open_error) p e where "resolvePath hook entry = Some p" "OpenFile ext p = Some e"
  | (nil_formatter) p where "resolvePath hook entry = Some p" "OpenFile ext p = None"
      "formatter hook = None"
  | (format_error) p f msg e where "resolvePath hook entry = Some p" "OpenFile ext p = None"
      "formatter hook = Some f" "Format ext f entry = (msg, Some e)"
  | (written) p f msg where "resolvePath hook entry = Some p" "OpenFile ext p = None"
      "formatter hook = Some f" "Format ext f entry = (msg, None)"
proof (cases "resolvePath hook entry")
  case None
  then show ?thesis by (rule unresolved)
next
  case (Some p)
  show ?thesis
  proof (cases "OpenFile ext p")
    case (Some e)
    with \<open>resolvePath hook entry = Some p\<close> show ?thesis by (rule open_error)
  next
    case op: None
    show ?thesis
    proof (cases "formatter hook")
      case None
      with Some op show ?thesis by (rule nil_formatter)
    next
      case f: (Some f)
      obtain msg err where fm: "Format ext f entry = (msg, err)"
        by (cases "Format ext f entry")
      from Some op f fm show ?thesis
        by (cases err) (auto intro: format_error written)
    qed
  qed
qed


section \<open>No destination\<close>

lemma written_idle: "written [E_Lock, E_Unlock] = []" "written [] = []"
  by (simp_all add: written_def List.map_filter_simps)

text \<open>
  Claim C2. When the table of the mode \<^verbatim>\<open>Fire\<close> chose has no entry for the entry's
  level (a nil table has none) and no default of that kind was set, \<^verbatim>\<open>Fire\<close>
  returns nil and hands no bytes to any destination: apart from taking and releasing the
  mutex it calls nothing. This holds of \<^verbatim>\<open>ioWrite\<close> and of \<^verbatim>\<open>fileWrite\<close>
  themselves, and so of \<^verbatim>\<open>Fire\<close> in either mode.
\<close>

theorem Fire_no_destination:
  "(lookup (writers hook) (Level entry) = None \<and> \<not> hasDefaultWriter hook \<longrightarrow>
      ioWrite ext hook entry = (Return None, [E_Lock, E_Unlock])) \<and>
   (lookup (paths hook) (Level entry) = None \<and> \<not> hasDefaultPath hook \<longrightarrow>
      fileWrite ext hook entry = (Return None, [E_Lock, E_Unlock])) \<and>
   ((writers hook \<noteq> None \<and> lookup (writers hook) (Level entry) = None \<and>
       \<not> hasDefaultWriter hook) \<or>
    (writers hook = None \<and> \<not> hasDefaultWriter hook \<and>
       lookup (paths hook) (Level entry) = None \<and> \<not> hasDefaultPath hook) \<longrightarrow>
      fst (Fire ext hook entry) = Return None \<and>
      written (snd (Fire ext hook entry)) = [] \<and>
      set (snd (Fire ext hook entry)) \<subseteq> {E_Lock, E_Unlock})"
proof (intro conjI impI)
  assume "lookup (writers hook) (Level entry) = None \<and> \<not> hasDefaultWriter hook"
  then have "resolveWriter hook entry = None"
    by (simp add: resolveWriter_def)
  then show "ioWrite ext hook entry = (Return None, [E_Lock, E_Unlock])"
    by (rule ioWrite_unresolved)
next
  assume "lookup (paths hook) (Level entry) = None \<and> \<not> hasDefaultPath hook"
  then have "resolvePath hook entry = None"
    by (simp add: resolvePath_def)
  then show "fileWrite ext hook entry = (Return None, [E_Lock, E_Unlock])"
    by (rule fileWrite_unresolved)
next
  assume a: "(writers hook \<noteq> None \<and> lookup (writers hook) (Level entry) = None \<and>
       \<not> hasDefaultWriter hook) \<or>
    (writers hook = None \<and> \<not> hasDefaultWriter hook \<and>
       lookup (paths hook) (Level entry) = None \<and> \<not> hasDefaultPath hook)"
  have "Fire ext hook entry = (Return None, [E_Lock, E_Unlock]) \<or>
        Fire ext hook entry = (Return None, [])"
  proof -
    consider
      (stream_mode) "writers hook \<noteq> None \<and> lookup (writers hook) (Level entry) = None \<and>
        \<not> hasDefaultWriter hook"
    | (file_mode) "writers hook = None \<and> \<not> hasDefaultWriter hook \<and> paths hook \<noteq> None \<and>
        lookup (paths hook) (Level entry) = None \<and> \<not> hasDefaultPath hook"
    | (no_mode) "writers hook = None \<and> \<not> hasDefaultWriter hook \<and> paths hook = None \<and>
        \<not> hasDefaultPath hook"
      using a by (cases "paths hook = None") auto
    then show ?thesis
    proof cases
      case stream_mode
      then have "resolveWriter hook entry = None"
        by (simp add: resolveWriter_def)
      with stream_mode show ?thesis
        by (simp add: Fire_stream ioWrite_unresolved)
    next
      case file_mode
      then have "resolvePath hook entry = None"
        by (simp add: resolvePath_def)
      with file_mode show ?thesis
        by (simp add: Fire_file fileWrite_unresolved)
    next
      case no_mode
      then show ?thesis
        by (simp add: Fire_idle)
    qed
  qed
  then show "fst (Fire ext hook entry) = Return None"
    and "written (snd (Fire ext hook entry)) = []"
    and "set (snd (Fire ext hook entry)) \<subseteq> {E_Lock, E_Unlock}"
    by (auto simp: written_idle)
qed

theorem Fire_no_destination_witness:
  "ioWrite ext_ok hook_writers entry_info = (Return None, [E_Lock, E_Unlock]) \<and>
   fileWrite ext_ok hook_paths entry_info = (Return None, [E_Lock, E_Unlock]) \<and>
   fst (Fire ext_ok hook_writers entry_info) = Return None \<and>
   written (snd (Fire ext_ok hook_writers entry_info)) = [] \<and>
   fst (Fire ext_ok hook_paths entry_info) = Return None \<and>
   written (snd (Fire ext_ok hook_paths entry_info)) = []"
  using Fire_no_destination [where hook = hook_writers and ext = ext_ok and entry = entry_info]
        Fire_no_destination [where hook = hook_paths and ext = ext_ok and entry = entry_info]
  by (simp add: example_defs level_defs lookup_def)

section \<open>The table before the default\<close>

lemma written_simps:
  "written [E_Lock, E_Format f entry, E_Println args, E_Unlock] = []"
  "written [E_Lock, E_Format f entry, E_Unlock] = []"
  "written [E_Lock, E_Format f entry, E_Write w msg, E_Unlock] = [(ToWriter w, msg)]"
  "written [E_Lock, E_MkdirAll d m, E_OpenFile p fl pm, E_Println args, E_Unlock] = []"
  "written [E_Lock, E_MkdirAll d m, E_OpenFile p fl pm, E_FileClose p, E_Unlock] = []"
  "written [E_Lock, E_MkdirAll d m, E_OpenFile p fl pm, E_Format f entry, E_Println args,
            E_FileClose p, E_Unlock] = []"
  "written [E_Lock, E_MkdirAll d m, E_OpenFile p fl pm, E_Format f entry, E_FileWrite p msg,
            E_FileClose p, E_Unlock] = [(ToFile p, msg)]"
  by (simp_all add: written_def List.map_filter_simps)

lemma written_ioWrite:
  assumes "resolveWriter hook entry = Some w"
  shows "fst ` set (written (snd (ioWrite ext hook entry))) \<subseteq> ToWriter ` set_option w"
proof (cases rule: ioWrite_cases [where hook = hook and entry = entry and ext = ext])
  case unresolved
  with assms show ?thesis by simp
next
  case (nil_formatter w')
  then show ?thesis by (simp add: ioWrite_nil_formatter written_idle)
next
  case (format_error w' f msg e)
  then show ?thesis by (simp add: ioWrite_format_error written_simps)
next
  case (nil_writer f msg)
  then show ?thesis by (simp add: ioWrite_nil_writer written_simps)
next
  case (written w' f msg)
  with assms have "w = Some w'" by simp
  with written show ?thesis by (simp add: ioWrite_written written_simps)
qed

lemma written_fileWrite:
  assumes "resolvePath hook entry = Some p"
  shows "fst ` set (written (snd (fileWrite ext hook entry))) \<subseteq> {ToFile p}"
proof (cases rule: fileWrite_cases [where hook = hook and entry = entry and ext = ext])
  case unresolved
  with assms show ?thesis by simp
next
  case (open_error p' e)
  then show ?thesis by (simp add: fileWrite_open_error written_simps)
next
  case (nil_formatter p')
  then show ?thesis by (simp add: fileWrite_nil_formatter written_simps)
next
  case (format_error p' f msg e)
  then show ?thesis by (simp add: fileWrite_format_error written_simps)
next
  case (written p' f msg)
  with assms have "p = p'" by simp
  with written show ?thesis by (simp add: fileWrite_written written_simps)
qed

lemma resolveWriter_mapped:
  "lookup (writers hook) (Level entry) = Some w \<Longrightarrow> resolveWriter hook entry = Some w"
  by (simp add: resolveWriter_def)

lemma resolvePath_mapped:
  "lookup (paths hook) (Level entry) = Some p \<Longrightarrow> resolvePath hook entry = Some p"
  by (simp add: resolvePath_def)

lemma resolveWriter_default:
  "lookup (writers hook) (Level entry) = None \<Longrightarrow> hasDefaultWriter hook \<Longrightarrow>
   resolveWriter hook entry = Some (defaultWriter hook)"
  by (simp add: resolveWriter_def)

lemma resolvePath_default:
  "lookup (paths hook) (Level entry) = None \<Longrightarrow> hasDefaultPath hook \<Longrightarrow>
   resolvePath hook entry = Some (defaultPath hook)"
  by (simp add: resolvePath_def)

lemma ioWrite_mapped_default:
  assumes "lookup (writers hook) (Level entry) = Some w"
  shows "ioWrite ext (hook\<lparr>defaultWriter := dw, hasDefaultWriter := hdw\<rparr>) entry
           = ioWrite ext hook entry"
proof -
  have "resolveWriter (hook\<lparr>defaultWriter := dw, hasDefaultWriter := hdw\<rparr>) entry
          = resolveWriter hook entry"
    using assms by (simp add: resolveWriter_def)
  then show ?thesis
    by (simp add: ioWrite_def ioWrite_body_def cong: option.case_cong)
qed

lemma fileWrite_mapped_default:
  assumes "lookup (paths hook) (Level entry) = Some p"
  shows "fileWrite ext (hook\<lparr>defaultPath := dp, hasDefaultPath := hdp\<rparr>) entry
           = fileWrite ext hook entry"
proof -
  have "resolvePath (hook\<lparr>defaultPath := dp, hasDefaultPath := hdp\<rparr>) entry
          = resolvePath hook entry"
    using assms by (simp add: resolvePath_def)
  then show ?thesis
    by (simp add: fileWrite_def fileWrite_body_def fileWrite_opened_def
          cong: option.case_cong)
qed

lemma Fire_stream_mapped:
  assumes "lookup (writers hook) (Level entry) = Some w"
  shows "resolveWriter hook entry = Some w"
    and "Fire ext (hook\<lparr>defaultWriter := dw, hasDefaultWriter := hdw\<rparr>) entry
           = Fire ext hook entry"
    and "fst ` set (written (snd (Fire ext hook entry))) \<subseteq> ToWriter ` set_option w"
    and "formatter hook = Some f \<and> Format ext f entry = (msg, None) \<and> w = Some wr \<longrightarrow>
           written (snd (Fire ext hook entry)) = [(ToWriter wr, msg)]"
proof -
  from assms have tab: "writers hook \<noteq> None"
    by (rule lookup_Some_not_nil)
  show res: "resolveWriter hook entry = Some w"
    using assms by (rule resolveWriter_mapped)
  from tab have fire: "Fire ext hook entry = ioWrite ext hook entry"
    by (simp add: Fire_stream)
  from tab have "Fire ext (hook\<lparr>defaultWriter := dw, hasDefaultWriter := hdw\<rparr>) entry
      = ioWrite ext (hook\<lparr>defaultWriter := dw, hasDefaultWriter := hdw\<rparr>) entry"
    by (simp add: Fire_stream)
  with fire assms
  show "Fire ext (hook\<lparr>defaultWriter := dw, hasDefaultWriter := hdw\<rparr>) entry
          = Fire ext hook entry"
    by (simp add: ioWrite_mapped_default)
  from res show "fst ` set (written (snd (Fire ext hook entry))) \<subseteq> ToWriter ` set_option w"
    unfolding fire by (rule written_ioWrite)
  from res show "formatter hook = Some f \<and> Format ext f entry = (msg, None) \<and> w = Some wr \<longrightarrow>
      written (snd (Fire ext hook entry)) = [(ToWriter wr, msg)]"
    unfolding fire by (auto simp: ioWrite_written written_simps)
qed

lemma Fire_file_mapped:
  assumes "writers hook = None" and "\<not> hasDefaultWriter hook"
    and "lookup (paths hook) (Level entry) = Some p"
  shows "resolvePath hook entry = Some p"
    and "Fire ext (hook\<lparr>defaultPath := dp, hasDefaultPath := hdp\<rparr>) entry
           = Fire ext hook entry"
    and "fst ` set (written (snd (Fire ext hook entry))) \<subseteq> {ToFile p}"
    and "OpenFile ext p = None \<and> formatter hook = Some f \<and> Format ext f entry = (msg, None) \<longrightarrow>
           written (snd (Fire ext hook entry)) = [(ToFile p, msg)]"
proof -
  from assms(3) have tab: "paths hook \<noteq> None"
    by (rule lookup_Some_not_nil)
  show res: "resolvePath hook entry = Some p"
    using assms(3) by (rule resolvePath_mapped)
  from tab assms have fire: "Fire ext hook entry = fileWrite ext hook entry"
    by (simp add: Fire_file)
  from tab assms have "Fire ext (hook\<lparr>defaultPath := dp, hasDefaultPath := hdp\<rparr>) entry
      = fileWrite ext (hook\<lparr>defaultPath := dp, hasDefaultPath := hdp\<rparr>) entry"
    by (simp add: Fire_file)
  with fire assms(3)
  show "Fire ext (hook\<lparr>defaultPath := dp, hasDefaultPath := hdp\<rparr>) entry = Fire ext hook entry"
    by (simp add: fileWrite_mapped_default)
  from res show "fst ` set (written (snd (Fire ext hook entry))) \<subseteq> {ToFile p}"
    unfolding fire by (rule written_fileWrite)
  from res show "OpenFile ext p = None \<and> formatter hook = Some f \<and>
      Format ext f entry = (msg, None) \<longrightarrow>
      written (snd (Fire ext hook entry)) = [(ToFile p, msg)]"
    unfolding fire by (auto simp: fileWrite_written written_simps)
qed

lemma Fire_stream_default:
  assumes "lookup (writers hook) (Level entry) = None" and "hasDefaultWriter hook"
  shows "resolveWriter hook entry = Some (defaultWriter hook)"
    and "fst ` set (written (snd (Fire ext hook entry)))
           \<subseteq> ToWriter ` set_option (defaultWriter hook)"
    and "formatter hook = Some f \<and> Format ext f entry = (msg, None) \<and>
         defaultWriter hook = Some wr \<longrightarrow>
           written (snd (Fire ext hook entry)) = [(ToWriter wr, msg)]"
proof -
  show res: "resolveWriter hook entry = Some (defaultWriter hook)"
    using assms by (rule resolveWriter_default)
  from assms have fire: "Fire ext hook entry = ioWrite ext hook entry"
    by (simp add: Fire_stream)
  from res show "fst ` set (written (snd (Fire ext hook entry)))
      \<subseteq> ToWriter ` set_option (defaultWriter hook)"
    unfolding fire by (rule written_ioWrite)
  from res show "formatter hook = Some f \<and> Format ext f entry = (msg, None) \<and>
      defaultWriter hook = Some wr \<longrightarrow>
      written (snd (Fire ext hook entry)) = [(ToWriter wr, msg)]"
    unfolding fire by (auto simp: ioWrite_written written_simps)
qed

lemma Fire_file_default:
  assumes "writers hook = None" and "\<not> hasDefaultWriter hook"
    and "lookup (paths hook) (Level entry) = None" and "hasDefaultPath hook"
  shows "resolvePath hook entry = Some (defaultPath hook)"
    and "fst ` set (written (snd (Fire ext hook entry))) \<subseteq> {ToFile (defaultPath hook)}"
    and "OpenFile ext (defaultPath hook) = None \<and> formatter hook = Some f \<and>
         Format ext f entry = (msg, None) \<longrightarrow>
           written (snd (Fire ext hook entry)) = [(ToFile (defaultPath hook), msg)]"
proof -
  show res: "resolvePath hook entry = Some (defaultPath hook)"
    using assms(3,4) by (rule resolvePath_default)
  from assms have fire: "Fire ext hook entry = fileWrite ext hook entry"
    by (simp add: Fire_file)
  from res show "fst ` set (written (snd (Fire ext hook entry))) \<subseteq> {ToFile (defaultPath hook)}"
    unfolding fire by (rule written_fileWrite)
  from res show "OpenFile ext (defaultPath hook) = None \<and> formatter hook = Some f \<and>
      Format ext f entry = (msg, None) \<longrightarrow>
      written (snd (Fire ext hook entry)) = [(ToFile (defaultPath hook), msg)]"
    unfolding fire by (auto simp: fileWrite_written written_simps)
qed

text \<open>
  Claim C3. A level with a mapping in the table of the mode in use resolves to the mapped
  destination: every write of the call goes there, the write of the formatted bytes
  does whenever the call reaches it, and the default (its value and its flag) has no
  effect on the call. The default is the destination only when the level is absent
  from the table.
\<close>

theorem mapped_destination_before_default:
  "(lookup (writers hook) (Level entry) = Some w \<longrightarrow>
      resolveWriter hook entry = Some w \<and>
      Fire ext (hook\<lparr>defaultWriter := dw, hasDefaultWriter := hdw\<rparr>) entry
        = Fire ext hook entry \<and>
      fst ` set (written (snd (Fire ext hook entry))) \<subseteq> ToWriter ` set_option w \<and>
      (formatter hook = Some f \<and> Format ext f entry = (msg, None) \<and> w = Some wr \<longrightarrow>
         written (snd (Fire ext hook entry)) = [(ToWriter wr, msg)])) \<and>
   (writers hook = None \<and> \<not> hasDefaultWriter hook \<and>
    lookup (paths hook) (Level entry) = Some p \<longrightarrow>
      resolvePath hook entry = Some p \<and>
      Fire ext (hook\<lparr>defaultPath := dp, hasDefaultPath := hdp\<rparr>) entry
        = Fire ext hook entry \<and>
      fst ` set (written (snd (Fire ext hook entry))) \<subseteq> {ToFile p} \<and>
      (OpenFile ext p = None \<and> formatter hook = Some f \<and> Format ext f entry = (msg, None) \<longrightarrow>
         written (snd (Fire ext hook entry)) = [(ToFile p, msg)])) \<and>
   (lookup (writers hook) (Level entry) = None \<and> hasDefaultWriter hook \<longrightarrow>
      resolveWriter hook entry = Some (defaultWriter hook) \<and>
      fst ` set (written (snd (Fire ext hook entry)))
        \<subseteq> ToWriter ` set_option (defaultWriter hook) \<and>
      (formatter hook = Some f \<and> Format ext f entry = (msg, None) \<and>
       defaultWriter hook = Some wr \<longrightarrow>
         written (snd (Fire ext hook entry)) = [(ToWriter wr, msg)])) \<and>
   (writers hook = None \<and> \<not> hasDefaultWriter hook \<and>
    lookup (paths hook) (Level entry) = None \<and> hasDefaultPath hook \<longrightarrow>
      resolvePath hook entry = Some (defaultPath hook) \<and>
      fst ` set (written (snd (Fire ext hook entry))) \<subseteq> {ToFile (defaultPath hook)} \<and>
      (OpenFile ext (defaultPath hook) = None \<and> formatter hook = Some f \<and>
       Format ext f entry = (msg, None) \<longrightarrow>
         written (snd (Fire ext hook entry)) = [(ToFile (defaultPath hook), msg)]))"
proof (intro conjI)
  show "lookup (writers hook) (Level entry) = Some w \<longrightarrow>
      resolveWriter hook entry = Some w \<and>
      Fire ext (hook\<lparr>defaultWriter := dw, hasDefaultWriter := hdw\<rparr>) entry
        = Fire ext hook entry \<and>
      fst ` set (written (snd (Fire ext hook entry))) \<subseteq> ToWriter ` set_option w \<and>
      (formatter hook = Some f \<and> Format ext f entry = (msg, None) \<and> w = Some wr \<longrightarrow>
         written (snd (Fire ext hook entry)) = [(ToWriter wr, msg)])"
    using Fire_stream_mapped [of hook entry w] by blast
  show "writers hook = None \<and> \<not> hasDefaultWriter hook \<and>
    lookup (paths hook) (Level entry) = Some p \<longrightarrow>
      resolvePath hook entry = Some p \<and>
      Fire ext (hook\<lparr>defaultPath := dp, hasDefaultPath := hdp\<rparr>) entry
        = Fire ext hook entry \<and>
      fst ` set (written (snd (Fire ext hook entry))) \<subseteq> {ToFile p} \<and>
      (OpenFile ext p = None \<and> formatter hook = Some f \<and> Format ext f entry = (msg, None) \<longrightarrow>
         written (snd (Fire ext hook entry)) = [(ToFile p, msg)])"
    using Fire_file_mapped [of hook entry p] by blast
  show "lookup (writers hook) (Level entry) = None \<and> hasDefaultWriter hook \<longrightarrow>
      resolveWriter hook entry = Some (defaultWriter hook) \<and>
      fst ` set (written (snd (Fire ext hook entry)))
        \<subseteq> ToWriter ` set_option (defaultWriter hook) \<and>
      (formatter hook = Some f \<and> Format ext f entry = (msg, None) \<and>
       defaultWriter hook = Some wr \<longrightarrow>
         written (snd (Fire ext hook entry)) = [(ToWriter wr, msg)])"
    using Fire_stream_default [of hook entry] by blast
  show "writers hook = None \<and> \<not> hasDefaultWriter hook \<and>
    lookup (paths hook) (Level entry) = None \<and> hasDefaultPath hook \<longrightarrow>
      resolvePath hook entry = Some (defaultPath hook) \<and>
      fst ` set (written (snd (Fire ext hook entry))) \<subseteq> {ToFile (defaultPath hook)} \<and>
      (OpenFile ext (defaultPath hook) = None \<and> formatter hook = Some f \<and>
       Format ext f entry = (msg, None) \<longrightarrow>
         written (snd (Fire ext hook entry)) = [(ToFile (defaultPath hook), msg)])"
    using Fire_file_default [of hook entry] by blast
qed


theorem mapped_destination_before_default_witness:
  "written (snd (Fire ext_ok (SetDefaultWriter hook_writers (Some (Writer 9))) entry_error))
     = [(ToWriter (Writer 2), ''boom'')] \<and>
   Fire ext_ok (SetDefaultWriter hook_writers (Some (Writer 9))) entry_error
     = Fire ext_ok hook_writers entry_error \<and>
   written (snd (Fire ext_ok (SetDefaultWriter hook_writers (Some (Writer 9))) entry_info))
     = [(ToWriter (Writer 9), ''hello'')] \<and>
   written (snd (Fire ext_ok (SetDefaultPath hook_paths ''/tmp/default.log'') entry_error))
     = [(ToFile ''/tmp/e.log'', ''boom'')] \<and>
   Fire ext_ok (SetDefaultPath hook_paths ''/tmp/default.log'') entry_error
     = Fire ext_ok hook_paths entry_error \<and>
   written (snd (Fire ext_ok (SetDefaultPath hook_paths ''/tmp/default.log'') entry_info))
     = [(ToFile ''/tmp/default.log'', ''hello'')]"
proof -
  have w_mapped:
    "written (snd (Fire ext_ok (SetDefaultWriter hook_writers (Some (Writer 9))) entry_error))
       = [(ToWriter (Writer 2), ''boom'')]"
    using mapped_destination_before_default
      [where hook = "SetDefaultWriter hook_writers (Some (Writer 9))" and ext = ext_ok
         and entry = entry_error and w = "Some (Writer 2)" and wr = "Writer 2"
         and f = defaultFormatter and msg = "''boom''" and p = "[]"
         and dw = "Some (Writer 9)" and hdw = True and dp = "[]" and hdp = False]
    by (simp add: example_defs level_defs SetDefaultWriter_def lookup_def)
  have w_same:
    "Fire ext_ok (SetDefaultWriter hook_writers (Some (Writer 9))) entry_error
       = Fire ext_ok hook_writers entry_error"
    using mapped_destination_before_default
      [where hook = hook_writers and ext = ext_ok
         and entry = entry_error and w = "Some (Writer 2)" and wr = "Writer 2"
         and f = defaultFormatter and msg = "''boom''" and p = "[]"
         and dw = "Some (Writer 9)" and hdw = True and dp = "[]" and hdp = False]
    by (simp add: example_defs level_defs SetDefaultWriter_def lookup_def)
  have w_default:
    "written (snd (Fire ext_ok (SetDefaultWriter hook_writers (Some (Writer 9))) entry_info))
       = [(ToWriter (Writer 9), ''hello'')]"
    using mapped_destination_before_default
      [where hook = "SetDefaultWriter hook_writers (Some (Writer 9))" and ext = ext_ok
         and entry = entry_info and w = None and wr = "Writer 9"
         and f = defaultFormatter and msg = "''hello''" and p = "[]"
         and dw = "Some (Writer 9)" and hdw = True and dp = "[]" and hdp = False]
    by (simp add: example_defs level_defs SetDefaultWriter_def lookup_def)
  have p_mapped:
    "written (snd (Fire ext_ok (SetDefaultPath hook_paths ''/tmp/default.log'') entry_error))
       = [(ToFile ''/tmp/e.log'', ''boom'')]"
    using mapped_destination_before_default
      [where hook = "SetDefaultPath hook_paths ''/tmp/default.log''" and ext = ext_ok
         and entry = entry_error and w = None and wr = "Writer 9"
         and f = defaultFormatter and msg = "''boom''" and p = "''/tmp/e.log''"
         and dw = None and hdw = False and dp = "''/tmp/default.log''" and hdp = True]
    by (simp add: example_defs level_defs SetDefaultPath_def lookup_def)
  have p_same:
    "Fire ext_ok (SetDefaultPath hook_paths ''/tmp/default.log'') entry_error
       = Fire ext_ok hook_paths entry_error"
    using mapped_destination_before_default
      [where hook = hook_paths and ext = ext_ok
         and entry = entry_error and w = None and wr = "Writer 9"
         and f = defaultFormatter and msg = "''boom''" and p = "''/tmp/e.log''"
         and dw = None and hdw = False and dp = "''/tmp/default.log''" and hdp = True]
    by (simp add: example_defs level_defs SetDefaultPath_def lookup_def)
  have p_default:
    "written (snd (Fire ext_ok (SetDefaultPath hook_paths ''/tmp/default.log'') entry_info))
       = [(ToFile ''/tmp/default.log'', ''hello'')]"
    using mapped_destination_before_default
      [where hook = "SetDefaultPath hook_paths ''/tmp/default.log''" and ext = ext_ok
         and entry = entry_info and w = None and wr = "Writer 9"
         and f = defaultFormatter and msg = "''hello''" and p = "[]"
         and dw = None and hdw = False and dp = "''/tmp/default.log''" and hdp = True]
    by (simp add: example_defs level_defs SetDefaultPath_def lookup_def)
  from w_mapped w_same w_default p_mapped p_same p_default show ?thesis
    by blast
qed

section \<open>Errors of the write\<close>

lemma Fire_FileWrite_ignored: "Fire (ext\<lparr>FileWrite := fw\<rparr>) hook entry = Fire ext hook entry"
proof -
  have "ioWrite (ext\<lparr>FileWrite := fw\<rparr>) hook entry = ioWrite ext hook entry"
    by (simp add: ioWrite_def ioWrite_body_def cong: option.case_cong)
  moreover have "fileWrite (ext\<lparr>FileWrite := fw\<rparr>) hook entry = fileWrite ext hook entry"
    by (simp add: fileWrite_def fileWrite_body_def fileWrite_opened_def cong: option.case_cong)
  ultimately show ?thesis
    by (simp add: Fire_def)
qed

lemma ioWrite_write_result:
  assumes "E_Write w msg \<in> set (snd (ioWrite ext hook entry))"
  shows "fst (ioWrite ext hook entry) = Return (snd (Write ext w msg))"
proof (cases rule: ioWrite_cases [where hook = hook and entry = entry and ext = ext])
  case unresolved
  with assms show ?thesis by (simp add: ioWrite_unresolved)
next
  case (nil_formatter w')
  with assms show ?thesis by (simp add: ioWrite_nil_formatter)
next
  case (format_error w' f m e)
  with assms show ?thesis by (simp add: ioWrite_format_error)
next
  case (nil_writer f m)
  with assms show ?thesis by (simp add: ioWrite_nil_writer)
next
  case (written w' f m)
  with assms show ?thesis by (simp add: ioWrite_written)
qed

lemma fileWrite_write_result:
  assumes "E_FileWrite p msg \<in> set (snd (fileWrite ext hook entry))"
  shows "fst (fileWrite ext hook entry) = Return None"
proof (cases rule: fileWrite_cases [where hook = hook and entry = entry and ext = ext])
  case unresolved
  with assms show ?thesis by (simp add: fileWrite_unresolved)
next
  case (open_error p' e)
  with assms show ?thesis by (simp add: fileWrite_open_error)
next
  case (nil_formatter p')
  with assms show ?thesis by (simp add: fileWrite_nil_formatter)
next
  case (format_error p' f m e)
  with assms show ?thesis by (simp add: fileWrite_format_error)
next
  case (written p' f m)
  with assms show ?thesis by (simp add: fileWrite_written)
qed

lemma fileWrite_error_sources:
  assumes "fst (fileWrite ext hook entry) = Return (Some e)"
  shows "(\<exists>p. resolvePath hook entry = Some p \<and> OpenFile ext p = Some e) \<or>
         (\<exists>p f. resolvePath hook entry = Some p \<and> OpenFile ext p = None \<and>
                formatter hook = Some f \<and> snd (Format ext f entry) = Some e)"
proof (cases rule: fileWrite_cases [where hook = hook and entry = entry and ext = ext])
  case unresolved
  with assms show ?thesis by (simp add: fileWrite_unresolved)
next
  case (open_error p' e')
  with assms show ?thesis by (simp add: fileWrite_open_error)
next
  case (nil_formatter p')
  with assms show ?thesis by (simp add: fileWrite_nil_formatter)
next
  case (format_error p' f m e')
  with assms show ?thesis by (simp add: fileWrite_format_error)
next
  case (written p' f m)
  with assms show ?thesis by (simp add: fileWrite_written)
qed

text \<open>
  Claim C4. In the mode of writers the error of the writer's \<^verbatim>\<open>Write\<close> is what
  \<^verbatim>\<open>Fire\<close> returns. In the mode of files the answer of the file's \<^verbatim>\<open>Write\<close>
  is never read: a call that reaches that write returns nil, and an error that
  \<^verbatim>\<open>Fire\<close> returns there is the error of opening the file or the error of the
  formatter.
\<close>

theorem write_error_stream_only:
  "(writers hook \<noteq> None \<or> hasDefaultWriter hook \<longrightarrow>
      (E_Write w msg \<in> set (snd (Fire ext hook entry)) \<longrightarrow>
         fst (Fire ext hook entry) = Return (snd (Write ext w msg))) \<and>
      (resolveWriter hook entry = Some (Some w) \<and> formatter hook = Some f \<and>
       Format ext f entry = (msg, None) \<longrightarrow>
         Fire ext hook entry =
           (Return (snd (Write ext w msg)),
            [E_Lock, E_Format f entry, E_Write w msg, E_Unlock]))) \<and>
   Fire (ext\<lparr>FileWrite := fw\<rparr>) hook entry = Fire ext hook entry \<and>
   (writers hook = None \<and> \<not> hasDefaultWriter hook \<longrightarrow>
      (E_FileWrite p msg \<in> set (snd (Fire ext hook entry)) \<longrightarrow>
         fst (Fire ext hook entry) = Return None) \<and>
      (fst (Fire ext hook entry) = Return (Some e) \<longrightarrow>
         (\<exists>q. resolvePath hook entry = Some q \<and> OpenFile ext q = Some e) \<or>
         (\<exists>q g. resolvePath hook entry = Some q \<and> OpenFile ext q = None \<and>
                formatter hook = Some g \<and> snd (Format ext g entry) = Some e)))"
proof (intro conjI impI)
  assume "writers hook \<noteq> None \<or> hasDefaultWriter hook"
  then have fire: "Fire ext hook entry = ioWrite ext hook entry"
    by (rule Fire_stream)
  {
    assume "E_Write w msg \<in> set (snd (Fire ext hook entry))"
    then show "fst (Fire ext hook entry) = Return (snd (Write ext w msg))"
      unfolding fire by (rule ioWrite_write_result)
  next
    assume "resolveWriter hook entry = Some (Some w) \<and> formatter hook = Some f \<and>
       Format ext f entry = (msg, None)"
    then show "Fire ext hook entry =
        (Return (snd (Write ext w msg)), [E_Lock, E_Format f entry, E_Write w msg, E_Unlock])"
      unfolding fire by (simp add: ioWrite_written)
  }
next
  show "Fire (ext\<lparr>FileWrite := fw\<rparr>) hook entry = Fire ext hook entry"
    by (rule Fire_FileWrite_ignored)
next
  assume mode: "writers hook = None \<and> \<not> hasDefaultWriter hook"
  have fire: "Fire ext hook entry = fileWrite ext hook entry \<or>
      Fire ext hook entry = (Return None, [])"
    using mode by (cases "paths hook \<noteq> None \<or> hasDefaultPath hook")
      (simp_all add: Fire_file Fire_idle)
  {
    assume "E_FileWrite p msg \<in> set (snd (Fire ext hook entry))"
    with fire show "fst (Fire ext hook entry) = Return None"
      by (auto dest: fileWrite_write_result)
  next
    assume "fst (Fire ext hook entry) = Return (Some e)"
    with fire have "fst (fileWrite ext hook entry) = Return (Some e)"
      by auto
    then show "(\<exists>q. resolvePath hook entry = Some q \<and> OpenFile ext q = Some e) \<or>
         (\<exists>q g. resolvePath hook entry = Some q \<and> OpenFile ext q = None \<and>
                formatter hook = Some g \<and> snd (Format ext g entry) = Some e)"
      by (rule fileWrite_error_sources)
  }
qed


theorem write_error_stream_only_witness:
  "Fire ext_write_fails hook_writers entry_error =
     (Return (Some (GoError ''closed pipe'')),
      [E_Lock, E_Format defaultFormatter entry_error, E_Write (Writer 2) ''boom'', E_Unlock]) \<and>
   E_FileWrite ''/tmp/e.log'' ''boom'' \<in> set (snd (Fire ext_write_fails hook_paths entry_error)) \<and>
   fst (Fire ext_write_fails hook_paths entry_error) = Return None \<and>
   fst (Fire ext_open_fails hook_paths entry_error) = Return (Some (GoError ''permission denied'')) \<and>
   OpenFile ext_open_fails ''/tmp/e.log'' = Some (GoError ''permission denied'')"
proof -
  have stream:
    "Fire ext_write_fails hook_writers entry_error =
       (Return (Some (GoError ''closed pipe'')),
        [E_Lock, E_Format defaultFormatter entry_error, E_Write (Writer 2) ''boom'', E_Unlock])"
    using write_error_stream_only
      [where hook = hook_writers and ext = ext_write_fails and entry = entry_error
         and w = "Writer 2" and f = defaultFormatter and msg = "''boom''"
         and fw = "FileWrite ext_ok" and p = "[]" and e = "GoError []"]
    by (simp add: example_defs ext_write_fails_def ext_open_fails_def level_defs resolveWriter_def lookup_def)
  have reached:
    "E_FileWrite ''/tmp/e.log'' ''boom'' \<in> set (snd (Fire ext_write_fails hook_paths entry_error))"
    by (simp add: example_defs ext_write_fails_def ext_open_fails_def level_defs Fire_def write_defs)
  have file_mode: "fst (Fire ext_write_fails hook_paths entry_error) = Return None"
    using reached write_error_stream_only
      [where hook = hook_paths and ext = ext_write_fails and entry = entry_error
         and w = "Writer 2" and f = defaultFormatter and msg = "''boom''"
         and fw = "FileWrite ext_ok" and p = "''/tmp/e.log''" and e = "GoError []"]
    by (simp add: example_defs ext_write_fails_def ext_open_fails_def)
  have failed:
    "fst (Fire ext_open_fails hook_paths entry_error) = Return (Some (GoError ''permission denied''))"
    by (simp add: example_defs ext_write_fails_def ext_open_fails_def level_defs Fire_def write_defs)
  have source: "OpenFile ext_open_fails ''/tmp/e.log'' = Some (GoError ''permission denied'')"
    using failed write_error_stream_only
      [where hook = hook_paths and ext = ext_open_fails and entry = entry_error
         and w = "Writer 2" and f = defaultFormatter and msg = "''boom''"
         and fw = "FileWrite ext_ok" and p = "''/tmp/e.log''"
         and e = "GoError ''permission denied''"]
    by (simp add: example_defs ext_write_fails_def ext_open_fails_def)
  from stream reached file_mode failed source show ?thesis
    by blast
qed

section \<open>Errors of the formatter\<close>

lemma resolvePath_Some_mode:
  "resolvePath hook entry = Some p \<Longrightarrow> paths hook \<noteq> None \<or> hasDefaultPath hook"
  by (cases "paths hook") (auto simp: resolvePath_def lookup_def split: if_splits)

lemma ioWrite_format_called:
  assumes "E_Format f entry \<in> set (snd (ioWrite ext hook entry))"
    and "snd (Format ext f entry) = Some e"
  shows "ioWrite ext hook entry =
           (Return (Some e),
            [E_Lock, E_Format f entry,
             E_Println [LStr ''failed to generate string for entry:'', LErr e], E_Unlock])"
proof (cases rule: ioWrite_cases [where hook = hook and entry = entry and ext = ext])
  case unresolved
  with assms show ?thesis by (simp add: ioWrite_unresolved)
next
  case (nil_formatter w')
  with assms show ?thesis by (simp add: ioWrite_nil_formatter)
next
  case (format_error w' g m e')
  with assms show ?thesis by (auto simp: ioWrite_format_error)
next
  case (nil_writer g m)
  with assms show ?thesis by (auto simp: ioWrite_nil_writer)
next
  case (written w' g m)
  with assms show ?thesis by (auto simp: ioWrite_written)
qed

lemma fileWrite_format_called:
  assumes "E_Format f entry \<in> set (snd (fileWrite ext hook entry))"
    and "snd (Format ext f entry) = Some e"
  shows "\<exists>p. resolvePath hook entry = Some p \<and> OpenFile ext p = None \<and>
           fileWrite ext hook entry =
             (Return (Some e),
              [E_Lock, E_MkdirAll (Dir ext p) ModePerm,
               E_OpenFile p [O_WRONLY, O_APPEND, O_CREATE] 438, E_Format f entry,
               E_Println [LStr ''failed to generate string for entry:'', LErr e],
               E_FileClose p, E_Unlock])"
proof (cases rule: fileWrite_cases [where hook = hook and entry = entry and ext = ext])
  case unresolved
  with assms show ?thesis by (simp add: fileWrite_unresolved)
next
  case (open_error p' e')
  with assms show ?thesis by (simp add: fileWrite_open_error)
next
  case (nil_formatter p')
  with assms show ?thesis by (simp add: fileWrite_nil_formatter)
next
  case (format_error p' g m e')
  with assms show ?thesis by (auto simp: fileWrite_format_error)
next
  case (written p' g m)
  with assms show ?thesis by (auto simp: fileWrite_written)
qed

lemma Fire_format_called:
  assumes "E_Format f entry \<in> set (snd (Fire ext hook entry))"
    and "snd (Format ext f entry) = Some e"
  shows "fst (Fire ext hook entry) = Return (Some e)"
    and "written (snd (Fire ext hook entry)) = []"
    and "E_Println [LStr ''failed to generate string for entry:'', LErr e]
           \<in> set (snd (Fire ext hook entry))"
proof -
  consider (stream_mode) "Fire ext hook entry = ioWrite ext hook entry"
    | (file_mode) "Fire ext hook entry = fileWrite ext hook entry"
    | (no_mode) "Fire ext hook entry = (Return None, [])"
    by (cases "writers hook \<noteq> None \<or> hasDefaultWriter hook";
        cases "paths hook \<noteq> None \<or> hasDefaultPath hook") (simp_all add: Fire_def)
  then have "fst (Fire ext hook entry) = Return (Some e) \<and>
      written (snd (Fire ext hook entry)) = [] \<and>
      E_Println [LStr ''failed to generate string for entry:'', LErr e]
        \<in> set (snd (Fire ext hook entry))"
  proof cases
    case stream_mode
    with assms ioWrite_format_called [of f entry ext hook e] show ?thesis
      by (simp add: written_simps)
  next
    case file_mode
    with assms fileWrite_format_called [of f entry ext hook e] show ?thesis
      by (auto simp: written_simps)
  next
    case no_mode
    with assms show ?thesis by simp
  qed
  then show "fst (Fire ext hook entry) = Return (Some e)"
    and "written (snd (Fire ext hook entry)) = []"
    and "E_Println [LStr ''failed to generate string for entry:'', LErr e]
           \<in> set (snd (Fire ext hook entry))"
    by simp_all
qed

text \<open>
  Claim C5. When the formatter is called and returns an error, \<^verbatim>\<open>Fire\<close> returns
  that error, hands no bytes to any destination, and prints the failure with
  \<^verbatim>\<open>log.Println\<close>. The formatter is called whenever a destination is resolved in
  the mode of writers, and in the mode of files whenever a destination is resolved and
  the file opens; the file is then opened and closed again with no write between.
\<close>

theorem formatter_error_returned:
  "(E_Format f entry \<in> set (snd (Fire ext hook entry)) \<and> snd (Format ext f entry) = Some e \<longrightarrow>
      fst (Fire ext hook entry) = Return (Some e) \<and>
      written (snd (Fire ext hook entry)) = [] \<and>
      E_Println [LStr ''failed to generate string for entry:'', LErr e]
        \<in> set (snd (Fire ext hook entry))) \<and>
   ((writers hook \<noteq> None \<or> hasDefaultWriter hook) \<and> resolveWriter hook entry = Some w \<and>
    formatter hook = Some f \<and> snd (Format ext f entry) = Some e \<longrightarrow>
      Fire ext hook entry =
        (Return (Some e),
         [E_Lock, E_Format f entry,
          E_Println [LStr ''failed to generate string for entry:'', LErr e], E_Unlock])) \<and>
   (writers hook = None \<and> \<not> hasDefaultWriter hook \<and> resolvePath hook entry = Some p \<and>
    OpenFile ext p = None \<and> formatter hook = Some f \<and> snd (Format ext f entry) = Some e \<longrightarrow>
      Fire ext hook entry =
        (Return (Some e),
         [E_Lock, E_MkdirAll (Dir ext p) ModePerm,
          E_OpenFile p [O_WRONLY, O_APPEND, O_CREATE] 438, E_Format f entry,
          E_Println [LStr ''failed to generate string for entry:'', LErr e],
          E_FileClose p, E_Unlock]))"
proof (intro conjI impI)
  assume a: "E_Format f entry \<in> set (snd (Fire ext hook entry)) \<and>
    snd (Format ext f entry) = Some e"
  then show "fst (Fire ext hook entry) = Return (Some e)"
    using Fire_format_called(1) [of f entry ext hook e] by blast
  from a show "written (snd (Fire ext hook entry)) = []"
    using Fire_format_called(2) [of f entry ext hook e] by blast
  from a show "E_Println [LStr ''failed to generate string for entry:'', LErr e]
      \<in> set (snd (Fire ext hook entry))"
    using Fire_format_called(3) [of f entry ext hook e] by blast
next
  assume a: "(writers hook \<noteq> None \<or> hasDefaultWriter hook) \<and>
    resolveWriter hook entry = Some w \<and> formatter hook = Some f \<and>
    snd (Format ext f entry) = Some e"
  then have "Format ext f entry = (fst (Format ext f entry), Some e)"
    by (simp add: prod_eq_iff)
  with a show "Fire ext hook entry =
      (Return (Some e),
       [E_Lock, E_Format f entry,
        E_Println [LStr ''failed to generate string for entry:'', LErr e], E_Unlock])"
    by (simp add: Fire_stream ioWrite_format_error [where msg = "fst (Format ext f entry)"])
next
  assume a: "writers hook = None \<and> \<not> hasDefaultWriter hook \<and>
    resolvePath hook entry = Some p \<and> OpenFile ext p = None \<and> formatter hook = Some f \<and>
    snd (Format ext f entry) = Some e"
  then have fm: "Format ext f entry = (fst (Format ext f entry), Some e)"
    by (simp add: prod_eq_iff)
  from a have "paths hook \<noteq> None \<or> hasDefaultPath hook"
    by (auto dest: resolvePath_Some_mode)
  with a have "Fire ext hook entry = fileWrite ext hook entry"
    by (simp add: Fire_file)
  with a fm show "Fire ext hook entry =
      (Return (Some e),
       [E_Lock, E_MkdirAll (Dir ext p) ModePerm,
        E_OpenFile p [O_WRONLY, O_APPEND, O_CREATE] 438, E_Format f entry,
        E_Println [LStr ''failed to generate string for entry:'', LErr e],
        E_FileClose p, E_Unlock])"
    by (simp add: fileWrite_format_error [where msg = "fst (Format ext f entry)"])
qed

theorem formatter_error_returned_witness:
  "Fire ext_format_fails hook_writers entry_error =
     (Return (Some (GoError ''bad field'')),
      [E_Lock, E_Format defaultFormatter entry_error,
       E_Println [LStr ''failed to generate string for entry:'', LErr (GoError ''bad field'')],
       E_Unlock]) \<and>
   Fire ext_format_fails hook_paths entry_error =
     (Return (Some (GoError ''bad field'')),
      [E_Lock, E_MkdirAll ''/tmp'' ModePerm,
       E_OpenFile ''/tmp/e.log'' [O_WRONLY, O_APPEND, O_CREATE] 438,
       E_Format defaultFormatter entry_error,
       E_Println [LStr ''failed to generate string for entry:'', LErr (GoError ''bad field'')],
       E_FileClose ''/tmp/e.log'', E_Unlock]) \<and>
   written (snd (Fire ext_format_fails hook_paths entry_error)) = []"
proof -
  have stream:
    "Fire ext_format_fails hook_writers entry_error =
       (Return (Some (GoError ''bad field'')),
        [E_Lock, E_Format defaultFormatter entry_error,
         E_Println [LStr ''failed to generate string for entry:'', LErr (GoError ''bad field'')],
         E_Unlock])"
    using formatter_error_returned
      [where hook = hook_writers and ext = ext_format_fails and entry = entry_error
         and f = defaultFormatter and e = "GoError ''bad field''" and w = "Some (Writer 2)"
         and p = "[]"]
    by (simp add: example_defs ext_format_fails_def level_defs resolveWriter_def lookup_def)
  have file_mode:
    "Fire ext_format_fails hook_paths entry_error =
       (Return (Some (GoError ''bad field'')),
        [E_Lock, E_MkdirAll ''/tmp'' ModePerm,
         E_OpenFile ''/tmp/e.log'' [O_WRONLY, O_APPEND, O_CREATE] 438,
         E_Format defaultFormatter entry_error,
         E_Println [LStr ''failed to generate string for entry:'', LErr (GoError ''bad field'')],
         E_FileClose ''/tmp/e.log'', E_Unlock])"
    using formatter_error_returned
      [where hook = hook_paths and ext = ext_format_fails and entry = entry_error
         and f = defaultFormatter and e = "GoError ''bad field''" and w = None
         and p = "''/tmp/e.log''"]
    by (simp add: example_defs ext_format_fails_def level_defs resolvePath_def lookup_def)
  have called:
    "E_Format defaultFormatter entry_error \<in> set (snd (Fire ext_format_fails hook_paths entry_error))"
    by (simp add: file_mode)
  have no_bytes: "written (snd (Fire ext_format_fails hook_paths entry_error)) = []"
    using called formatter_error_returned
      [where hook = hook_paths and ext = ext_format_fails and entry = entry_error
         and f = defaultFormatter and e = "GoError ''bad field''" and w = None
         and p = "''/tmp/e.log''"]
    by (simp add: example_defs ext_format_fails_def)
  from stream file_mode no_bytes show ?thesis
    by blast
qed

section \<open>Replacing the formatter\<close>

text \<open>
  Claim C6, as stated, fails: given the nil pointer of type
  \<^verbatim>\<open>*logrus.TextFormatter\<close>, a formatter argument of the plain-text kind,
  \<^verbatim>\<open>SetFormatter\<close> stores it and then panics on the write of
  \<^verbatim>\<open>DisableColors\<close>: no flag is set, and the store is as it was.
\<close>

theorem SetFormatter_nil_pointer_counterexample:
  "SetFormatter hook_paths (Some NilTextFormatterPtr) store_user =
     (Panic NilDereference, hook_paths\<lparr>formatter := Some NilTextFormatterPtr\<rparr>, store_user)"
  by (simp add: SetFormatter_def)

text \<open>
  Claim C6, amended. \<^verbatim>\<open>SetFormatter\<close> stores its argument, whatever it is, and
  changes no other field of the hook. For every argument but the nil pointer of type
  \<^verbatim>\<open>*logrus.TextFormatter\<close> it returns: when the argument points to a
  \<^verbatim>\<open>TextFormatter\<close>, the struct it points to has \<^verbatim>\<open>DisableColors\<close> set
  afterwards, whatever it held, and the other fields of that struct and all other
  structs are as before; for any other argument the store is unchanged. For the nil
  pointer the call panics after the assignment, with the store unchanged.
\<close>

theorem SetFormatter_stores:
  "formatter (fst (snd (SetFormatter hook f s))) = f \<and>
   fst (snd (SetFormatter hook f s)) = hook\<lparr>formatter := f\<rparr> \<and>
   (f \<noteq> Some NilTextFormatterPtr \<longrightarrow> fst (SetFormatter hook f s) = Return ()) \<and>
   (f = Some (TextFormatterPtr a) \<longrightarrow>
      DisableColors (snd (snd (SetFormatter hook f s)) a) \<and>
      snd (snd (SetFormatter hook f s)) = s(a := (s a)\<lparr>DisableColors := True\<rparr>)) \<and>
   ((\<forall>b. f \<noteq> Some (TextFormatterPtr b)) \<longrightarrow> snd (snd (SetFormatter hook f s)) = s) \<and>
   (f = Some NilTextFormatterPtr \<longrightarrow> fst (SetFormatter hook f s) = Panic NilDereference)"
proof (cases f)
  case None
  then show ?thesis by (simp add: SetFormatter_def)
next
  case (Some g)
  then show ?thesis by (cases g) (simp_all add: SetFormatter_def)
qed

theorem SetFormatter_stores_witness:
  "\<not> DisableColors (store_user 7) \<and>
   fst (SetFormatter hook_paths (Some (TextFormatterPtr 7)) store_user) = Return () \<and>
   DisableColors (snd (snd (SetFormatter hook_paths (Some (TextFormatterPtr 7)) store_user)) 7) \<and>
   ForceColors (snd (snd (SetFormatter hook_paths (Some (TextFormatterPtr 7)) store_user)) 7) \<and>
   formatter (fst (snd (SetFormatter hook_paths (Some (TextFormatterPtr 7)) store_user)))
     = Some (TextFormatterPtr 7) \<and>
   snd (snd (SetFormatter hook_paths (Some (OtherFormatter 3)) store_user)) = store_user \<and>
   snd (snd (SetFormatter hook_paths None store_user)) = store_user \<and>
   fst (SetFormatter hook_paths (Some NilTextFormatterPtr) store_user) = Panic NilDereference"
proof -
  have before: "\<not> DisableColors (store_user 7)"
    by (simp add: store_user_def init_store_def zero_TextFormatter_def defaultFormatter_addr_def)
  have text_formatter:
    "fst (SetFormatter hook_paths (Some (TextFormatterPtr 7)) store_user) = Return () \<and>
     DisableColors (snd (snd (SetFormatter hook_paths (Some (TextFormatterPtr 7)) store_user)) 7) \<and>
     ForceColors (snd (snd (SetFormatter hook_paths (Some (TextFormatterPtr 7)) store_user)) 7) \<and>
     formatter (fst (snd (SetFormatter hook_paths (Some (TextFormatterPtr 7)) store_user)))
       = Some (TextFormatterPtr 7)"
    using SetFormatter_stores
      [where hook = hook_paths and f = "Some (TextFormatterPtr 7)" and s = store_user and a = 7]
    by (simp add: store_user_def init_store_def zero_TextFormatter_def defaultFormatter_addr_def)
  have other:
    "snd (snd (SetFormatter hook_paths (Some (OtherFormatter 3)) store_user)) = store_user"
    using SetFormatter_stores
      [where hook = hook_paths and f = "Some (OtherFormatter 3)" and s = store_user and a = 7]
    by simp
  have nil: "snd (snd (SetFormatter hook_paths None store_user)) = store_user"
    using SetFormatter_stores
      [where hook = hook_paths and f = None and s = store_user and a = 7]
    by simp
  have nil_pointer:
    "fst (SetFormatter hook_paths (Some NilTextFormatterPtr) store_user) = Panic NilDereference"
    using SetFormatter_stores
      [where hook = hook_paths and f = "Some NilTextFormatterPtr" and s = store_user and a = 7]
    by simp
  from before text_formatter other nil nil_pointer show ?thesis
    by blast
qed

section \<open>Construction\<close>

text \<open>
  Claim C7. \<^verbatim>\<open>NewHook\<close> panics exactly when its first argument is neither the nil
  interface nor a \<^verbatim>\<open>PathMap\<close> nor a \<^verbatim>\<open>WriterMap\<close>. Otherwise it returns a hook
  that holds the table it was given and no other: none for nil, the path table alone
  for a \<^verbatim>\<open>PathMap\<close>, the writer table alone for a \<^verbatim>\<open>WriterMap\<close>. A hook it
  returns never has both tables.
\<close>

theorem NewHook_tables:
  "(\<exists>hook. fst (NewHook NilLevelMap uf s) = Return hook \<and>
       paths hook = None \<and> writers hook = None) \<and>
   (\<exists>hook. fst (NewHook (IsPathMap pm) uf s) = Return hook \<and>
       paths hook = pm \<and> writers hook = None) \<and>
   (\<exists>hook. fst (NewHook (IsWriterMap wm) uf s) = Return hook \<and>
       writers hook = wm \<and> paths hook = None) \<and>
   fst (NewHook (OtherType tn) uf s)
     = Panic (PanicString (''unsupported level map type: '' @ tn)) \<and>
   ((\<exists>p. fst (NewHook levelMap uf s) = Panic p) =
      (levelMap \<noteq> NilLevelMap \<and> (\<forall>pm. levelMap \<noteq> IsPathMap pm) \<and>
       (\<forall>wm. levelMap \<noteq> IsWriterMap wm))) \<and>
   (fst (NewHook levelMap uf s) = Return h \<longrightarrow> paths h = None \<or> writers h = None)"
proof (intro conjI)
  show "(\<exists>p. fst (NewHook levelMap uf s) = Panic p) =
      (levelMap \<noteq> NilLevelMap \<and> (\<forall>pm. levelMap \<noteq> IsPathMap pm) \<and>
       (\<forall>wm. levelMap \<noteq> IsWriterMap wm))"
    by (cases levelMap) (simp_all add: NewHook_def Let_def)
  show "fst (NewHook levelMap uf s) = Return h \<longrightarrow> paths h = None \<or> writers h = None"
    by (cases levelMap) (auto simp: NewHook_def Let_def)
qed (simp_all add: NewHook_def Let_def)

theorem NewHook_tables_witness:
  "(\<exists>h. fst (NewHook (IsPathMap (Some [(ErrorLevel, ''/tmp/e.log'')])) None init_store) = Return h \<and>
        paths h = Some [(ErrorLevel, ''/tmp/e.log'')] \<and> writers h = None) \<and>
   fst (NewHook (IsPathMap (Some [(ErrorLevel, ''/tmp/e.log'')])) None init_store)
     = Return hook_paths \<and>
   (paths hook_paths = None \<or> writers hook_paths = None)"
proof -
  have built:
    "fst (NewHook (IsPathMap (Some [(ErrorLevel, ''/tmp/e.log'')])) None init_store)
       = Return hook_paths"
    by (simp add: NewHook_def Let_def hook_paths_def hook_empty_def range_keys_def)
  have one_table: "paths hook_paths = None \<or> writers hook_paths = None"
    using built NewHook_tables
      [where levelMap = "IsPathMap (Some [(ErrorLevel, ''/tmp/e.log'')])" and uf = None
         and s = init_store and h = hook_paths and pm = "Some [(ErrorLevel, ''/tmp/e.log'')]"
         and wm = None and tn = "[]"]
    by simp
  have held:
    "\<exists>h. fst (NewHook (IsPathMap (Some [(ErrorLevel, ''/tmp/e.log'')])) None init_store) = Return h \<and>
        paths h = Some [(ErrorLevel, ''/tmp/e.log'')] \<and> writers h = None"
    using NewHook_tables
      [where levelMap = "IsPathMap (Some [(ErrorLevel, ''/tmp/e.log'')])" and uf = None
         and s = init_store and h = hook_paths and pm = "Some [(ErrorLevel, ''/tmp/e.log'')]"
         and wm = None and tn = "[]"]
    by simp
  from built one_table held show ?thesis
    by blast
qed

section \<open>The levels of the hook\<close>

text \<open>
  Claim C8. \<^verbatim>\<open>Levels\<close> returns \<^verbatim>\<open>logrus.AllLevels\<close>, the list of all named
  levels, for every hook: it reads neither table nor the levels collected by
  \<^verbatim>\<open>NewHook\<close>.
\<close>

theorem Levels_all:
  "Levels hook = AllLevels \<and>
   Levels (hook\<lparr>paths := pm, writers := wm, levels := ls\<rparr>) = Levels hook \<and>
   Levels hook =
     [PanicLevel, FatalLevel, ErrorLevel, WarnLevel, InfoLevel, DebugLevel, TraceLevel] \<and>
   distinct (Levels hook) \<and>
   Levels hook_empty = AllLevels \<and> Levels hook_paths = AllLevels \<and>
   Levels hook_writers = AllLevels \<and> levels hook_paths = [ErrorLevel]"
  by (simp add: Levels_def AllLevels_def level_defs hook_paths_def hook_empty_def)

section \<open>The formatter of a new hook\<close>

lemma reachable_default: "reachable s \<Longrightarrow> DisableColors (s defaultFormatter_addr)"
proof (induction rule: reachable.induct)
  case init
  show ?case by (simp add: init_store_def)
next
  case (set_formatter s hook f)
  show ?case
  proof (cases f)
    case None
    with set_formatter show ?thesis by (simp add: SetFormatter_def)
  next
    case (Some g)
    with set_formatter show ?thesis by (cases g) (simp_all add: SetFormatter_def)
  qed
next
  case (client_write s a tf)
  then show ?case by simp
qed

text \<open>
  Claim C9. Called with a nil formatter, \<^verbatim>\<open>NewHook\<close> gives the hook the package's
  \<^verbatim>\<open>defaultFormatter\<close>, a pointer to a \<^verbatim>\<open>TextFormatter\<close> whose
  \<^verbatim>\<open>DisableColors\<close> is set in every store the program can reach. Called with another
  formatter, it stores that one. In either case it leaves the store as it is: no
  formatter is modified at construction.
\<close>

theorem NewHook_formatter:
  "(fst (NewHook levelMap None s) = Return hook \<longrightarrow> formatter hook = Some defaultFormatter) \<and>
   defaultFormatter = TextFormatterPtr defaultFormatter_addr \<and>
   (reachable s \<longrightarrow> DisableColors (s defaultFormatter_addr)) \<and>
   (fst (NewHook levelMap (Some f) s) = Return hook' \<longrightarrow> formatter hook' = Some f) \<and>
   snd (NewHook levelMap uf s) = s"
proof (intro conjI)
  show "fst (NewHook levelMap None s) = Return hook \<longrightarrow> formatter hook = Some defaultFormatter"
    by (cases levelMap) (auto simp: NewHook_def Let_def)
  show "defaultFormatter = TextFormatterPtr defaultFormatter_addr"
    by (rule defaultFormatter_def)
  show "reachable s \<longrightarrow> DisableColors (s defaultFormatter_addr)"
    by (simp add: reachable_default)
  show "fst (NewHook levelMap (Some f) s) = Return hook' \<longrightarrow> formatter hook' = Some f"
    by (cases levelMap) (auto simp: NewHook_def Let_def)
  show "snd (NewHook levelMap uf s) = s"
    by (cases levelMap) (simp_all add: NewHook_def Let_def)
qed

theorem NewHook_formatter_witness:
  "fst (NewHook NilLevelMap None store_user) = Return hook_empty \<and>
   formatter hook_empty = Some defaultFormatter \<and>
   reachable store_user \<and>
   DisableColors (store_user defaultFormatter_addr) \<and>
   fst (NewHook NilLevelMap (Some (TextFormatterPtr 7)) store_user)
     = Return (hook_empty\<lparr>formatter := Some (TextFormatterPtr 7)\<rparr>) \<and>
   \<not> DisableColors (snd (NewHook NilLevelMap (Some (TextFormatterPtr 7)) store_user) 7)"
proof -
  have built: "fst (NewHook NilLevelMap None store_user) = Return hook_empty"
    by (simp add: NewHook_def Let_def hook_empty_def)
  have built': "fst (NewHook NilLevelMap (Some (TextFormatterPtr 7)) store_user)
      = Return (hook_empty\<lparr>formatter := Some (TextFormatterPtr 7)\<rparr>)"
    by (simp add: NewHook_def Let_def hook_empty_def)
  have reach: "reachable store_user"
    unfolding store_user_def
    by (rule reachable.client_write [OF reachable.init]) (simp add: defaultFormatter_addr_def)
  note inst = NewHook_formatter
      [where levelMap = NilLevelMap and s = store_user and hook = hook_empty
         and f = "TextFormatterPtr 7" and uf = "Some (TextFormatterPtr 7)"
         and hook' = "hook_empty\<lparr>formatter := Some (TextFormatterPtr 7)\<rparr>"]
  have dflt: "formatter hook_empty = Some defaultFormatter"
    using built inst by blast
  have colors: "DisableColors (store_user defaultFormatter_addr)"
    using reach inst by blast
  have untouched:
    "\<not> DisableColors (snd (NewHook NilLevelMap (Some (TextFormatterPtr 7)) store_user) 7)"
    using inst
    by (simp add: store_user_def init_store_def zero_TextFormatter_def defaultFormatter_addr_def)
  from built dflt reach colors built' untouched show ?thesis
    by blast
qed


section \<open>A nil formatter\<close>

lemma SetFormatter_nil:
  "SetFormatter hook None s = (Return (), hook\<lparr>formatter := None\<rparr>, s)"
  by (simp add: SetFormatter_def)

lemma Fire_nil_formatter_stream:
  assumes "formatter hook = None" and "writers hook \<noteq> None \<or> hasDefaultWriter hook"
    and "resolveWriter hook entry = Some w"
  shows "Fire ext hook entry = (Panic NilDereference, [E_Lock, E_Unlock])"
  using assms by (simp add: Fire_stream ioWrite_nil_formatter)

lemma Fire_nil_formatter_opened:
  assumes "formatter hook = None" and "writers hook = None" and "\<not> hasDefaultWriter hook"
    and "resolvePath hook entry = Some p" and "OpenFile ext p = None"
  shows "Fire ext hook entry =
           (Panic NilDereference,
            [E_Lock, E_MkdirAll (Dir ext p) ModePerm,
             E_OpenFile p [O_WRONLY, O_APPEND, O_CREATE] 438, E_FileClose p, E_Unlock])"
proof -
  from assms(4) have "paths hook \<noteq> None \<or> hasDefaultPath hook"
    by (rule resolvePath_Some_mode)
  with assms show ?thesis
    by (simp add: Fire_file fileWrite_nil_formatter)
qed

lemma Fire_open_error:
  assumes "writers hook = None" and "\<not> hasDefaultWriter hook"
    and "resolvePath hook entry = Some p" and "OpenFile ext p = Some e"
  shows "Fire ext hook entry =
           (Return (Some e),
            [E_Lock, E_MkdirAll (Dir ext p) ModePerm,
             E_OpenFile p [O_WRONLY, O_APPEND, O_CREATE] 438,
             E_Println [LStr ''failed to open logfile:'', LStr p, LErr e], E_Unlock])"
proof -
  from assms(3) have "paths hook \<noteq> None \<or> hasDefaultPath hook"
    by (rule resolvePath_Some_mode)
  with assms show ?thesis
    by (simp add: Fire_file fileWrite_open_error)
qed

lemma Fire_nil_formatter_panics_iff:
  assumes "formatter hook = None"
  shows "(\<exists>x. fst (Fire ext hook entry) = Panic x) =
           ((writers hook \<noteq> None \<or> hasDefaultWriter hook) \<and>
              resolveWriter hook entry \<noteq> None \<or>
            writers hook = None \<and> \<not> hasDefaultWriter hook \<and>
              (\<exists>q. resolvePath hook entry = Some q \<and> OpenFile ext q = None))"
proof (cases "writers hook \<noteq> None \<or> hasDefaultWriter hook")
  case True
  show ?thesis
  proof (cases "resolveWriter hook entry")
    case None
    with True show ?thesis
      by (auto simp: Fire_stream ioWrite_unresolved)
  next
    case (Some w)
    with True assms Fire_nil_formatter_stream [of hook entry w ext] show ?thesis
      by auto
  qed
next
  case False
  then have mode: "writers hook = None" "\<not> hasDefaultWriter hook"
    by simp_all
  show ?thesis
  proof (cases "resolvePath hook entry")
    case None
    have "Fire ext hook entry = fileWrite ext hook entry \<or>
        Fire ext hook entry = (Return None, [])"
      using mode by (cases "paths hook \<noteq> None \<or> hasDefaultPath hook")
        (simp_all add: Fire_file Fire_idle)
    with None mode show ?thesis
      by (auto simp: fileWrite_unresolved)
  next
    case (Some p)
    show ?thesis
    proof (cases "OpenFile ext p")
      case None
      with Some mode assms Fire_nil_formatter_opened [of hook entry p ext] show ?thesis
        by auto
    next
      case (Some e)
      with \<open>resolvePath hook entry = Some p\<close> mode Fire_open_error [of hook entry p ext e]
      show ?thesis
        by auto
    qed
  qed
qed

text \<open>
  Claim C10, as stated, fails: after \<^verbatim>\<open>SetFormatter(nil)\<close> on a hook with a path
  table, an entry whose level has a path resolves to a destination, yet when the file
  cannot be opened \<^verbatim>\<open>Fire\<close> returns the error of the open and never reaches the
  formatter.
\<close>

theorem nil_formatter_open_failure_counterexample:
  "hook_nil_formatter = fst (snd (SetFormatter hook_paths None init_store)) \<and>
   formatter hook_nil_formatter = None \<and>
   resolvePath hook_nil_formatter entry_error = Some ''/tmp/e.log'' \<and>
   Fire ext_open_fails hook_nil_formatter entry_error =
     (Return (Some (GoError ''permission denied'')),
      [E_Lock, E_MkdirAll ''/tmp'' ModePerm,
       E_OpenFile ''/tmp/e.log'' [O_WRONLY, O_APPEND, O_CREATE] 438,
       E_Println [LStr ''failed to open logfile:'', LStr ''/tmp/e.log'',
                  LErr (GoError ''permission denied'')],
       E_Unlock])"
  by (simp add: example_defs ext_open_fails_def hook_nil_formatter_def level_defs SetFormatter_def Fire_def fileWrite_def
        fileWrite_body_def resolvePath_def lookup_def)

text \<open>
  Claim C10, amended. \<^verbatim>\<open>SetFormatter\<close> accepts nil and stores it, with no other
  effect. With a nil formatter, a \<^verbatim>\<open>Fire\<close> whose level resolves to a destination
  panics on the nil formatter in the mode of writers, and in the mode of files when the
  file opens (the deferred close and release still run); when the file does not open,
  \<^verbatim>\<open>Fire\<close> returns the error of the open before it formats. With a nil
  formatter \<^verbatim>\<open>Fire\<close> panics in these cases and in no other: it is safe only
  when no destination resolves or the file does not open.
\<close>

theorem nil_formatter_Fire:
  "SetFormatter hook None s = (Return (), hook\<lparr>formatter := None\<rparr>, s) \<and>
   (formatter hook = None \<longrightarrow>
      ((writers hook \<noteq> None \<or> hasDefaultWriter hook) \<and> resolveWriter hook entry = Some w \<longrightarrow>
         Fire ext hook entry = (Panic NilDereference, [E_Lock, E_Unlock])) \<and>
      (writers hook = None \<and> \<not> hasDefaultWriter hook \<and> resolvePath hook entry = Some p \<and>
       OpenFile ext p = None \<longrightarrow>
         Fire ext hook entry =
           (Panic NilDereference,
            [E_Lock, E_MkdirAll (Dir ext p) ModePerm,
             E_OpenFile p [O_WRONLY, O_APPEND, O_CREATE] 438, E_FileClose p, E_Unlock])) \<and>
      (writers hook = None \<and> \<not> hasDefaultWriter hook \<and> resolvePath hook entry = Some p \<and>
       OpenFile ext p = Some e \<longrightarrow>
         Fire ext hook entry =
           (Return (Some e),
            [E_Lock, E_MkdirAll (Dir ext p) ModePerm,
             E_OpenFile p [O_WRONLY, O_APPEND, O_CREATE] 438,
             E_Println [LStr ''failed to open logfile:'', LStr p, LErr e], E_Unlock])) \<and>
      ((\<exists>x. fst (Fire ext hook entry) = Panic x) =
         ((writers hook \<noteq> None \<or> hasDefaultWriter hook) \<and>
            resolveWriter hook entry \<noteq> None \<or>
          writers hook = None \<and> \<not> hasDefaultWriter hook \<and>
            (\<exists>q. resolvePath hook entry = Some q \<and> OpenFile ext q = None))))"
proof (intro conjI impI)
  show "SetFormatter hook None s = (Return (), hook\<lparr>formatter := None\<rparr>, s)"
    by (rule SetFormatter_nil)
next
  assume "formatter hook = None"
    and "(writers hook \<noteq> None \<or> hasDefaultWriter hook) \<and> resolveWriter hook entry = Some w"
  then show "Fire ext hook entry = (Panic NilDereference, [E_Lock, E_Unlock])"
    by (simp add: Fire_nil_formatter_stream)
next
  assume "formatter hook = None"
    and "writers hook = None \<and> \<not> hasDefaultWriter hook \<and> resolvePath hook entry = Some p \<and>
       OpenFile ext p = None"
  then show "Fire ext hook entry =
      (Panic NilDereference,
       [E_Lock, E_MkdirAll (Dir ext p) ModePerm,
        E_OpenFile p [O_WRONLY, O_APPEND, O_CREATE] 438, E_FileClose p, E_Unlock])"
    by (simp add: Fire_nil_formatter_opened)
next
  assume "formatter hook = None"
    and "writers hook = None \<and> \<not> hasDefaultWriter hook \<and> resolvePath hook entry = Some p \<and>
       OpenFile ext p = Some e"
  then show "Fire ext hook entry =
      (Return (Some e),
       [E_Lock, E_MkdirAll (Dir ext p) ModePerm,
        E_OpenFile p [O_WRONLY, O_APPEND, O_CREATE] 438,
        E_Println [LStr ''failed to open logfile:'', LStr p, LErr e], E_Unlock])"
    by (simp add: Fire_open_error)
next
  assume "formatter hook = None"
  then show "(\<exists>x. fst (Fire ext hook entry) = Panic x) =
      ((writers hook \<noteq> None \<or> hasDefaultWriter hook) \<and>
         resolveWriter hook entry \<noteq> None \<or>
       writers hook = None \<and> \<not> hasDefaultWriter hook \<and>
         (\<exists>q. resolvePath hook entry = Some q \<and> OpenFile ext q = None))"
    by (rule Fire_nil_formatter_panics_iff)
qed

theorem nil_formatter_Fire_witness:
  "Fire ext_ok (fst (snd (SetFormatter hook_writers None init_store))) entry_error
     = (Panic NilDereference, [E_Lock, E_Unlock]) \<and>
   Fire ext_ok (fst (snd (SetFormatter hook_paths None init_store))) entry_error
     = (Panic NilDereference,
        [E_Lock, E_MkdirAll ''/tmp'' ModePerm,
         E_OpenFile ''/tmp/e.log'' [O_WRONLY, O_APPEND, O_CREATE] 438,
         E_FileClose ''/tmp/e.log'', E_Unlock]) \<and>
   Fire ext_open_fails (fst (snd (SetFormatter hook_paths None init_store))) entry_error
     = (Return (Some (GoError ''permission denied'')),
        [E_Lock, E_MkdirAll ''/tmp'' ModePerm,
         E_OpenFile ''/tmp/e.log'' [O_WRONLY, O_APPEND, O_CREATE] 438,
         E_Println [LStr ''failed to open logfile:'', LStr ''/tmp/e.log'',
                    LErr (GoError ''permission denied'')],
         E_Unlock])"
proof -
  have in_stream:
    "Fire ext_ok (fst (snd (SetFormatter hook_writers None init_store))) entry_error
       = (Panic NilDereference, [E_Lock, E_Unlock])"
    using nil_formatter_Fire
      [where hook = "hook_writers\<lparr>formatter := None\<rparr>" and s = init_store and ext = ext_ok
         and entry = entry_error and w = "Some (Writer 2)" and p = "[]" and e = "GoError []"]
      nil_formatter_Fire
      [where hook = hook_writers and s = init_store and ext = ext_ok
         and entry = entry_error and w = "Some (Writer 2)" and p = "[]" and e = "GoError []"]
    by (simp add: example_defs ext_open_fails_def level_defs resolveWriter_def lookup_def)
  have opened:
    "Fire ext_ok (fst (snd (SetFormatter hook_paths None init_store))) entry_error
       = (Panic NilDereference,
          [E_Lock, E_MkdirAll ''/tmp'' ModePerm,
           E_OpenFile ''/tmp/e.log'' [O_WRONLY, O_APPEND, O_CREATE] 438,
           E_FileClose ''/tmp/e.log'', E_Unlock])"
    using nil_formatter_Fire
      [where hook = "hook_paths\<lparr>formatter := None\<rparr>" and s = init_store and ext = ext_ok
         and entry = entry_error and w = None and p = "''/tmp/e.log''" and e = "GoError []"]
      nil_formatter_Fire
      [where hook = hook_paths and s = init_store and ext = ext_ok
         and entry = entry_error and w = None and p = "''/tmp/e.log''" and e = "GoError []"]
    by (simp add: example_defs ext_open_fails_def level_defs resolvePath_def lookup_def)
  have not_opened:
    "Fire ext_open_fails (fst (snd (SetFormatter hook_paths None init_store))) entry_error
       = (Return (Some (GoError ''permission denied'')),
          [E_Lock, E_MkdirAll ''/tmp'' ModePerm,
           E_OpenFile ''/tmp/e.log'' [O_WRONLY, O_APPEND, O_CREATE] 438,
           E_Println [LStr ''failed to open logfile:'', LStr ''/tmp/e.log'',
                      LErr (GoError ''permission denied'')],
           E_Unlock])"
    using nil_formatter_Fire
      [where hook = "hook_paths\<lparr>formatter := None\<rparr>" and s = init_store
         and ext = ext_open_fails and entry = entry_error and w = None
         and p = "''/tmp/e.log''" and e = "GoError ''permission denied''"]
      nil_formatter_Fire
      [where hook = hook_paths and s = init_store
         and ext = ext_open_fails and entry = entry_error and w = None
         and p = "''/tmp/e.log''" and e = "GoError ''permission denied''"]
    by (simp add: example_defs ext_open_fails_def level_defs resolvePath_def lookup_def)
  from in_stream opened not_opened show ?thesis
    by blast
qed

end
